theory Spec2Isabelle
  imports Main
begin

section \<open>Values, dictionaries and errors\<close>

text \<open>
  The service (\<^verbatim>\<open>src/main.py\<close>) keeps two module-level lists, \<^verbatim>\<open>users_db\<close> and
  \<^verbatim>\<open>reports_db\<close>, and fills them with the dictionaries that \<^verbatim>\<open>.dict()\<close> makes
  of a validated request body. Every field of the request models is \<^verbatim>\<open>str\<close> or
  \<^verbatim>\<open>Optional[str]\<close>, so a dictionary value is a string or \<^verbatim>\<open>None\<close>.
\<close>

datatype pyval = PNone | PStr string

type_synonym pydict = "string \<Rightarrow> pyval option"

text \<open>
  What a handler can raise: \<^verbatim>\<open>HTTPException(status_code, detail)\<close>, the
  \<^verbatim>\<open>KeyError\<close> of a subscript on a missing key, and the validation error of a
  response model whose field declared \<^verbatim>\<open>str\<close> is given \<^verbatim>\<open>None\<close>.
\<close>

datatype error = HTTPException nat string | KeyError pyval | ValidationError

definition bind :: "error + 'a \<Rightarrow> ('a \<Rightarrow> error + 'b) \<Rightarrow> error + 'b" where
  "bind m f = (case m of Inl e \<Rightarrow> Inl e | Inr x \<Rightarrow> f x)"

text \<open>\<^verbatim>\<open>d[k]\<close> and \<^verbatim>\<open>d.get(k, default)\<close>.\<close>

definition subscript :: "pydict \<Rightarrow> string \<Rightarrow> error + pyval" where
  "subscript d k = (case d k of None \<Rightarrow> Inl (KeyError (PStr k)) | Some v \<Rightarrow> Inr v)"

definition dict_get :: "pydict \<Rightarrow> string \<Rightarrow> pyval \<Rightarrow> pyval" where
  "dict_get d k dflt = (case d k of None \<Rightarrow> dflt | Some v \<Rightarrow> v)"

text \<open>A field declared \<^verbatim>\<open>str\<close> in a response model accepts a string and rejects \<^verbatim>\<open>None\<close>.\<close>

definition str_field :: "pyval \<Rightarrow> error + string" where
  "str_field v = (case v of PNone \<Rightarrow> Inl ValidationError | PStr s \<Rightarrow> Inr s)"

text \<open>
  A list comprehension whose element expression can raise: the elements are built from
  left to right and the first exception ends the comprehension.
\<close>

fun comprehension :: "('a \<Rightarrow> error + 'b) \<Rightarrow> 'a list \<Rightarrow> error + 'b list" where
  "comprehension f [] = Inr []"
| "comprehension f (x # xs) =
     (case f x of
        Inl e \<Rightarrow> Inl e
      | Inr y \<Rightarrow> (case comprehension f xs of Inl e \<Rightarrow> Inl e | Inr ys \<Rightarrow> Inr (y # ys)))"

text \<open>The same for the filter of a comprehension (\<^verbatim>\<open>[x for x in xs if p(x)]\<close>).\<close>

fun comprehension_if :: "('a \<Rightarrow> error + bool) \<Rightarrow> 'a list \<Rightarrow> error + 'a list" where
  "comprehension_if p [] = Inr []"
| "comprehension_if p (x # xs) =
     (case p x of
        Inl e \<Rightarrow> Inl e
      | Inr b \<Rightarrow> (case comprehension_if p xs of
                    Inl e \<Rightarrow> Inl e
                  | Inr ys \<Rightarrow> Inr (if b then x # ys else ys)))"

section \<open>Request models\<close>

record User =
  name :: string
  email :: string
  password :: string
  role :: string
  phone :: string
  location :: string

record UserLogin =
  login_email :: string
  login_password :: string

record Report =
  report_email :: string
  report_type :: string
  category :: "string option"
  issue :: string
  description :: string
  report_location :: string
  photo :: "string option"
  alertLevel :: "string option"

text \<open>
  \<^verbatim>\<open>report.dict()\<close>: all eight fields of the model are keys of the dictionary, an
  optional field that was not given is the key with the value \<^verbatim>\<open>None\<close>.
\<close>

definition optional :: "string option \<Rightarrow> pyval" where
  "optional x = (case x of None \<Rightarrow> PNone | Some s \<Rightarrow> PStr s)"

definition report_dict :: "Report \<Rightarrow> pydict" where
  "report_dict r =
     [''email'' \<mapsto> PStr (report_email r),
      ''type'' \<mapsto> PStr (report_type r),
      ''category'' \<mapsto> optional (category r),
      ''issue'' \<mapsto> PStr (issue r),
      ''description'' \<mapsto> PStr (description r),
      ''location'' \<mapsto> PStr (report_location r),
      ''photo'' \<mapsto> optional (photo r),
      ''alertLevel'' \<mapsto> optional (alertLevel r)]"

text \<open>
  Python's \<^verbatim>\<open>not x\<close> on an \<^verbatim>\<open>Optional[str]\<close>: true for \<^verbatim>\<open>None\<close> and for the
  empty string.
\<close>

definition py_not :: "string option \<Rightarrow> bool" where
  "py_not x = (case x of None \<Rightarrow> True | Some s \<Rightarrow> s = [])"

section \<open>The store and the writing handlers\<close>

text \<open>
  \<^verbatim>\<open>users_db\<close> only ever receives \<^verbatim>\<open>user.dict()\<close>, a dictionary with the six
  string fields of \<^verbatim>\<open>User\<close>; it is kept as the list of those records.
  \<^verbatim>\<open>reports_db\<close> is read with keys that no handler writes
  (\<^verbatim>\<open>seriousness\<close>, \<^verbatim>\<open>status\<close>, \<^verbatim>\<open>date\<close>), so its elements stay dictionaries.
\<close>

record state =
  users_db :: "User list"
  reports_db :: "pydict list"

definition register_user :: "User \<Rightarrow> state \<Rightarrow> (error + string) \<times> state" where
  "register_user user s =
     (if list_ex (\<lambda>u. email u = email user) (users_db s)
      then (Inl (HTTPException 400 ''User with this email already exists''), s)
      else (Inr ''User registered successfully'',
            s\<lparr>users_db := users_db s @ [user]\<rparr>))"

record LoginResponse =
  message :: string
  user_out :: "(string \<times> string) list"

text \<open>
  \<^verbatim>\<open>found_user\<close> is the first element of \<^verbatim>\<open>users_db\<close> with the email, or
  \<^verbatim>\<open>None\<close>. A stored user dictionary has six keys, so it is never falsy and
  \<^verbatim>\<open>not found_user\<close> holds exactly when nothing was found.
\<close>

definition login_user :: "UserLogin \<Rightarrow> state \<Rightarrow> error + LoginResponse" where
  "login_user user s =
     (case find (\<lambda>u. email u = login_email user) (users_db s) of
        None \<Rightarrow> Inl (HTTPException 401 ''Invalid email or password'')
      | Some found_user \<Rightarrow>
          if password found_user \<noteq> login_password user
          then Inl (HTTPException 401 ''Invalid email or password'')
          else Inr \<lparr>message = ''Login successful'',
                    user_out = [(''name'', name found_user),
                                (''email'', email found_user),
                                (''role'', role found_user),
                                (''location'', location found_user)]\<rparr>)"

definition submit_report :: "Report \<Rightarrow> state \<Rightarrow> (error + string) \<times> state" where
  "submit_report report s =
     (if \<not> list_ex (\<lambda>user. email user = report_email report) (users_db s)
      then (Inl (HTTPException 404 ''User not found''), s)
      else if report_type report = ''authority'' \<and> py_not (category report)
      then (Inl (HTTPException 400 ''Category is required for authority reports''), s)
      else if report_type report = ''community'' \<and> py_not (alertLevel report)
      then (Inl (HTTPException 400 ''Alert level is required for community alerts''), s)
      else (Inr ''Report submitted successfully'',
            s\<lparr>reports_db := reports_db s @ [report_dict report]\<rparr>))"

text \<open>
  The stores a client can bring about: the empty ones the module starts with, then any
  sequence of \<^verbatim>\<open>POST /register\<close> and \<^verbatim>\<open>POST /report\<close>. The other four handlers
  only read.
\<close>

inductive reachable :: "state \<Rightarrow> bool" where
  start: "reachable \<lparr>users_db = [], reports_db = []\<rparr>"
| registered: "reachable s \<Longrightarrow> reachable (snd (register_user u s))"
| submitted: "reachable s \<Longrightarrow> reachable (snd (submit_report r s))"

section \<open>Listing all reports\<close>

text \<open>
  The handler first builds \<^verbatim>\<open>issues_data\<close>, a list of plain dictionaries whose values
  are whatever the stored report holds; the framework then validates the returned list
  against \<^verbatim>\<open>response_model=List[ReportOut]\<close>, whose five text fields are declared
  \<^verbatim>\<open>str\<close>.
\<close>

record issue_data =
  d_id :: int
  d_title :: pyval
  d_category :: pyval
  d_location :: pyval
  d_seriousness :: pyval
  d_description :: pyval

record ReportOut =
  ro_id :: int
  ro_title :: string
  ro_category :: string
  ro_location :: string
  ro_seriousness :: string
  ro_description :: string

definition issues_data :: "pydict list \<Rightarrow> error + issue_data list" where
  "issues_data db =
     comprehension (\<lambda>(index, report).
         bind (subscript report ''issue'') (\<lambda>title.
         bind (subscript report ''category'') (\<lambda>cat.
         bind (subscript report ''location'') (\<lambda>loc.
         bind (subscript report ''description'') (\<lambda>descr.
           Inr \<lparr>d_id = int index + 1, d_title = title, d_category = cat,
                d_location = loc,
                d_seriousness = dict_get report ''seriousness'' (PStr ''Moderate''),
                d_description = descr\<rparr>)))))
       (enumerate 0 db)"

definition validate_ReportOut :: "issue_data \<Rightarrow> error + ReportOut" where
  "validate_ReportOut d =
     bind (str_field (d_title d)) (\<lambda>title.
     bind (str_field (d_category d)) (\<lambda>cat.
     bind (str_field (d_location d)) (\<lambda>loc.
     bind (str_field (d_seriousness d)) (\<lambda>ser.
     bind (str_field (d_description d)) (\<lambda>descr.
       Inr \<lparr>ro_id = d_id d, ro_title = title, ro_category = cat, ro_location = loc,
            ro_seriousness = ser, ro_description = descr\<rparr>)))))"

definition get_all_reports :: "state \<Rightarrow> error + ReportOut list" where
  "get_all_reports s =
     bind (issues_data (reports_db s)) (comprehension validate_ReportOut)"

section \<open>The user dashboard\<close>

record UserStats =
  us_totalReports :: int
  us_resolvedReports :: int
  us_unresolvedReports :: int

record ReportHistoryItem =
  rh_id :: int
  rh_title :: string
  rh_category :: string
  rh_status :: string

record UserDashboardResponse =
  userStats :: UserStats
  reportHistory :: "ReportHistoryItem list"
  notifications :: "string list"

text \<open>Constructing a \<^verbatim>\<open>ReportHistoryItem\<close> validates its three \<^verbatim>\<open>str\<close> fields.\<close>

definition new_ReportHistoryItem ::
  "int \<Rightarrow> pyval \<Rightarrow> pyval \<Rightarrow> pyval \<Rightarrow> error + ReportHistoryItem" where
  "new_ReportHistoryItem i title cat status =
     bind (str_field title) (\<lambda>t.
     bind (str_field cat) (\<lambda>c.
     bind (str_field status) (\<lambda>st.
       Inr \<lparr>rh_id = i, rh_title = t, rh_category = c, rh_status = st\<rparr>)))"

text \<open>\<^verbatim>\<open>report.get("status") == "Resolved"\<close>.\<close>

definition is_resolved :: "pydict \<Rightarrow> bool" where
  "is_resolved report = (dict_get report ''status'' PNone = PStr ''Resolved'')"

text \<open>How an f-string renders a value.\<close>

definition py_str :: "pyval \<Rightarrow> string" where
  "py_str v = (case v of PNone \<Rightarrow> ''None'' | PStr s \<Rightarrow> s)"

definition user_reports :: "string \<Rightarrow> pydict list \<Rightarrow> error + pydict list" where
  "user_reports em db =
     comprehension_if (\<lambda>report.
         bind (subscript report ''email'') (\<lambda>e. Inr (e = PStr em))) db"

definition report_history :: "pydict list \<Rightarrow> error + ReportHistoryItem list" where
  "report_history urs =
     comprehension (\<lambda>(index, report).
         bind (subscript report ''issue'') (\<lambda>title.
         bind (subscript report ''category'') (\<lambda>cat.
           new_ReportHistoryItem (int index + 1) title cat
             (dict_get report ''status'' (PStr ''Unresolved'')))))
       (enumerate 0 urs)"

definition notifications_of :: "pydict list \<Rightarrow> error + string list" where
  "notifications_of urs =
     comprehension (\<lambda>report.
         bind (subscript report ''issue'') (\<lambda>title.
           Inr (''Your report '' @ [CHR 0x27] @ py_str title @ [CHR 0x27]
                @ '' has been marked as resolved.'')))
       (filter is_resolved urs)"

definition get_user_dashboard :: "string \<Rightarrow> state \<Rightarrow> error + UserDashboardResponse" where
  "get_user_dashboard em s =
     bind (user_reports em (reports_db s)) (\<lambda>urs.
       let total_reports = int (length urs);
           resolved_reports = int (length (filter is_resolved urs));
           unresolved_reports = total_reports - resolved_reports;
           user_stats = \<lparr>us_totalReports = total_reports,
                         us_resolvedReports = resolved_reports,
                         us_unresolvedReports = unresolved_reports\<rparr>
       in bind (report_history urs) (\<lambda>history.
          bind (notifications_of urs) (\<lambda>notes.
            Inr \<lparr>userStats = user_stats, reportHistory = history,
                 notifications = notes\<rparr>)))"

section \<open>The authority dashboard\<close>

record GlobalStats =
  gs_totalReports :: int
  gs_resolvedReports :: int
  gs_unresolvedReports :: int
  gs_highPriorityReports :: int

record IssueByCategory =
  ic_category :: string
  ic_count :: int

record IssueBySeriousness =
  is_seriousness :: string
  is_count :: int

record IssueManagementItem =
  im_id :: int
  im_title :: string
  im_category :: string
  im_date :: string
  im_seriousness :: string
  im_status :: string

record AuthorityDashboardResponse =
  globalStats :: GlobalStats
  issuesByCategory :: "IssueByCategory list"
  issuesBySeriousness :: "IssueBySeriousness list"
  issueList :: "IssueManagementItem list"

definition global_stats :: "pydict list \<Rightarrow> GlobalStats" where
  "global_stats db =
     (let total_reports = int (length db);
          resolved_reports = int (length (filter is_resolved db));
          unresolved_reports = total_reports - resolved_reports;
          high_priority_reports =
            int (length (filter (\<lambda>report.
                   dict_get report ''seriousness'' PNone \<in> set [PStr ''High'', PStr ''Critical''])
                 db))
      in \<lparr>gs_totalReports = total_reports, gs_resolvedReports = resolved_reports,
          gs_unresolvedReports = unresolved_reports,
          gs_highPriorityReports = high_priority_reports\<rparr>)"

text \<open>
  The two tallies are Python dictionaries, whose \<^verbatim>\<open>items()\<close> come in the order the
  keys were first inserted: an association list in which a new key goes to the end and
  a known key is updated in place. The keys are what \<^verbatim>\<open>report.get\<close> returned, a
  string or \<^verbatim>\<open>None\<close>.
\<close>

fun tally_get :: "(pyval \<times> int) list \<Rightarrow> pyval \<Rightarrow> int option" where
  "tally_get [] k = None"
| "tally_get ((k', c) # kvs) k = (if k' = k then Some c else tally_get kvs k)"

fun tally_set :: "(pyval \<times> int) list \<Rightarrow> pyval \<Rightarrow> int \<Rightarrow> (pyval \<times> int) list" where
  "tally_set [] k v = [(k, v)]"
| "tally_set ((k', c) # kvs) k v =
     (if k' = k then (k, v) # kvs else (k', c) # tally_set kvs k v)"

text \<open>
  \<^verbatim>\<open>category_counts[category] = category_counts.get(category, 0) + 1\<close>, for each
  report in turn.
\<close>

fun category_counts :: "(pyval \<times> int) list \<Rightarrow> pydict list \<Rightarrow> (pyval \<times> int) list" where
  "category_counts counts [] = counts"
| "category_counts counts (report # db) =
     (let cat = dict_get report ''category'' (PStr ''Other'')
      in category_counts
           (tally_set counts cat
              ((case tally_get counts cat of None \<Rightarrow> 0 | Some c \<Rightarrow> c) + 1))
           db)"

definition new_IssueByCategory :: "pyval \<Rightarrow> int \<Rightarrow> error + IssueByCategory" where
  "new_IssueByCategory cat n =
     bind (str_field cat) (\<lambda>c. Inr \<lparr>ic_category = c, ic_count = n\<rparr>)"

definition issues_by_category :: "pydict list \<Rightarrow> error + IssueByCategory list" where
  "issues_by_category db =
     comprehension (\<lambda>(cat, n). new_IssueByCategory cat n) (category_counts [] db)"

text \<open>
  \<^verbatim>\<open>seriousness_counts[seriousness] += 1\<close> reads the key before it writes it, so a
  label that is not one of the four initial keys raises \<^verbatim>\<open>KeyError\<close>.
\<close>

fun seriousness_counts ::
  "(pyval \<times> int) list \<Rightarrow> pydict list \<Rightarrow> error + (pyval \<times> int) list" where
  "seriousness_counts counts [] = Inr counts"
| "seriousness_counts counts (report # db) =
     (let seriousness = dict_get report ''seriousness'' (PStr ''Moderate'')
      in case tally_get counts seriousness of
           None \<Rightarrow> Inl (KeyError seriousness)
         | Some c \<Rightarrow> seriousness_counts (tally_set counts seriousness (c + 1)) db)"

definition new_IssueBySeriousness :: "pyval \<Rightarrow> int \<Rightarrow> error + IssueBySeriousness" where
  "new_IssueBySeriousness ser n =
     bind (str_field ser) (\<lambda>x. Inr \<lparr>is_seriousness = x, is_count = n\<rparr>)"

definition issues_by_seriousness :: "pydict list \<Rightarrow> error + IssueBySeriousness list" where
  "issues_by_seriousness db =
     bind (seriousness_counts
             [(PStr ''Low'', 0), (PStr ''Moderate'', 0), (PStr ''High'', 0),
              (PStr ''Critical'', 0)] db)
       (comprehension (\<lambda>(ser, n). new_IssueBySeriousness ser n))"

text \<open>
  The keyword arguments of \<^verbatim>\<open>IssueManagementItem(...)\<close> are evaluated in the order
  they are written (\<^verbatim>\<open>issue\<close>, \<^verbatim>\<open>category\<close>, \<^verbatim>\<open>date\<close>), and only then does the
  constructor validate its five \<^verbatim>\<open>str\<close> fields.
\<close>

definition new_IssueManagementItem ::
  "int \<Rightarrow> pyval \<Rightarrow> pyval \<Rightarrow> pyval \<Rightarrow> pyval \<Rightarrow> pyval \<Rightarrow> error + IssueManagementItem" where
  "new_IssueManagementItem i title cat date ser status =
     bind (str_field title) (\<lambda>t.
     bind (str_field cat) (\<lambda>c.
     bind (str_field date) (\<lambda>d.
     bind (str_field ser) (\<lambda>se.
     bind (str_field status) (\<lambda>st.
       Inr \<lparr>im_id = i, im_title = t, im_category = c, im_date = d,
            im_seriousness = se, im_status = st\<rparr>)))))"

definition issue_list :: "pydict list \<Rightarrow> error + IssueManagementItem list" where
  "issue_list db =
     comprehension (\<lambda>(index, report).
         bind (subscript report ''issue'') (\<lambda>title.
         bind (subscript report ''category'') (\<lambda>cat.
         bind (subscript report ''date'') (\<lambda>date.
           new_IssueManagementItem (int index + 1) title cat date
             (dict_get report ''seriousness'' (PStr ''Moderate''))
             (dict_get report ''status'' (PStr ''Unresolved''))))))
       (enumerate 0 db)"

definition get_authority_dashboard :: "state \<Rightarrow> error + AuthorityDashboardResponse" where
  "get_authority_dashboard s =
     (let db = reports_db s
      in bind (issues_by_category db) (\<lambda>by_category.
         bind (issues_by_seriousness db) (\<lambda>by_seriousness.
         bind (issue_list db) (\<lambda>issues.
           Inr \<lparr>globalStats = global_stats db, issuesByCategory = by_category,
                issuesBySeriousness = by_seriousness, issueList = issues\<rparr>))))"

section \<open>Example requests and stores\<close>

text \<open>
  The registration and the authority report of the specification's worked example; a
  community alert that gives an alert level and no category; an authority report whose
  category is the empty string; a registration whose email is not an address.
\<close>

definition alice :: User where
  "alice = \<lparr>name = ''A'', email = ''a@x.com'', password = ''p'', role = ''user'',
             phone = ''1'', location = ''L''\<rparr>"

definition no_address :: User where
  "no_address = \<lparr>name = ''B'', email = ''not an email'', password = ''p'', role = ''user'',
                  phone = ''2'', location = ''L''\<rparr>"

definition pothole :: Report where
  "pothole = \<lparr>report_email = ''a@x.com'', report_type = ''authority'',
               category = Some ''Roads'', issue = ''Pothole'', description = ''d'',
               report_location = ''L'', photo = None, alertLevel = None\<rparr>"

definition flood :: Report where
  "flood = \<lparr>report_email = ''a@x.com'', report_type = ''community'',
             category = None, issue = ''Flood'', description = ''d'',
             report_location = ''L'', photo = None, alertLevel = Some ''High''\<rparr>"

definition blank_category :: Report where
  "blank_category = \<lparr>report_email = ''a@x.com'', report_type = ''authority'',
                      category = Some '''', issue = ''Pothole'', description = ''d'',
                      report_location = ''L'', photo = None, alertLevel = None\<rparr>"

text \<open>
  The stores after no request, after the registration, and after the registration
  followed by the report, by the alert, or by both.
\<close>

definition empty_store :: state where
  "empty_store = \<lparr>users_db = [], reports_db = []\<rparr>"

definition registered_store :: state where
  "registered_store = \<lparr>users_db = [alice], reports_db = []\<rparr>"

definition reported_store :: state where
  "reported_store = \<lparr>users_db = [alice], reports_db = [report_dict pothole]\<rparr>"

definition alert_store :: state where
  "alert_store = \<lparr>users_db = [alice], reports_db = [report_dict flood]\<rparr>"

definition mixed_store :: state where
  "mixed_store = \<lparr>users_db = [alice], reports_db = [report_dict pothole, report_dict flood]\<rparr>"

text \<open>
  No handler writes a seriousness. A store in which some reports have one all the same
  exercises the four buckets of the authority dashboard.
\<close>

definition graded :: "string \<Rightarrow> pydict" where
  "graded label = (report_dict pothole)(''seriousness'' \<mapsto> PStr label)"

definition graded_store :: state where
  "graded_store = \<lparr>users_db = [alice],
      reports_db = [graded ''High'', report_dict pothole, graded ''Low'', graded ''High'']\<rparr>"

section \<open>Registration and login\<close>

lemma find_first:
  "\<forall>v\<in>set pre. \<not> P v \<Longrightarrow> P u \<Longrightarrow> find P (pre @ u # post) = Some u"
  by (induction pre) auto

lemma find_split:
  "find P xs = Some u \<Longrightarrow> \<exists>pre post. xs = pre @ u # post \<and> P u \<and> (\<forall>v\<in>set pre. \<not> P v)"
proof (induction xs)
  case Nil
  then show ?case by simp
next
  case (Cons x xs)
  show ?case
  proof (cases "P x")
    case True
    with Cons.prems have "x = u" by simp
    with True have "x # xs = [] @ u # xs \<and> P u \<and> (\<forall>v\<in>set []. \<not> P v)" by simp
    then show ?thesis by blast
  next
    case False
    with Cons.prems have "find P xs = Some u" by simp
    from Cons.IH [OF this] obtain pre post
      where "xs = pre @ u # post" "P u" "\<forall>v\<in>set pre. \<not> P v" by blast
    with False have "x # xs = (x # pre) @ u # post \<and> P u \<and> (\<forall>v\<in>set (x # pre). \<not> P v)"
      by simp
    then show ?thesis by blast
  qed
qed

text \<open>
  Claim C3. Registration fails, with the 400 response ``User with this email already
  exists'' (the Conflict of the error taxonomy), exactly when a stored user has the same
  email, and then the store is unchanged; otherwise it succeeds and appends the new user
  as the last record. Registering an email a second time, whatever the other fields,
  fails with that response, and the user store has grown by exactly one record in total.
\<close>

theorem register_user_conflict:
  "(isl (fst (register_user u s)) \<longleftrightarrow> (\<exists>v\<in>set (users_db s). email v = email u))
   \<and> ((\<exists>v\<in>set (users_db s). email v = email u) \<longrightarrow>
        register_user u s = (Inl (HTTPException 400 ''User with this email already exists''), s))
   \<and> (\<not> (\<exists>v\<in>set (users_db s). email v = email u) \<longrightarrow>
        register_user u s =
          (Inr ''User registered successfully'', s\<lparr>users_db := users_db s @ [u]\<rparr>))
   \<and> (\<not> (\<exists>v\<in>set (users_db s). email v = email u) \<and> email u' = email u \<longrightarrow>
        register_user u' (snd (register_user u s)) =
          (Inl (HTTPException 400 ''User with this email already exists''),
           snd (register_user u s))
        \<and> users_db (snd (register_user u' (snd (register_user u s)))) = users_db s @ [u]
        \<and> length (users_db (snd (register_user u' (snd (register_user u s)))))
            = length (users_db s) + 1)"
  by (auto simp: register_user_def list_ex_iff)

theorem register_user_conflict_witness:
  "register_user alice empty_store =
     (Inr ''User registered successfully'', \<lparr>users_db = [alice], reports_db = []\<rparr>)
   \<and> register_user (alice\<lparr>password := ''q''\<rparr>) (snd (register_user alice empty_store)) =
       (Inl (HTTPException 400 ''User with this email already exists''),
        \<lparr>users_db = [alice], reports_db = []\<rparr>)
   \<and> length (users_db (snd (register_user (alice\<lparr>password := ''q''\<rparr>)
                 (snd (register_user alice empty_store))))) = 1"
proof -
  have fresh: "\<not> (\<exists>v\<in>set (users_db empty_store). email v = email alice)"
    by (simp add: empty_store_def)
  have same: "email (alice\<lparr>password := ''q''\<rparr>) = email alice"
    by simp
  note inst = register_user_conflict [of alice empty_store "alice\<lparr>password := ''q''\<rparr>"]
  from inst fresh have first: "register_user alice empty_store =
      (Inr ''User registered successfully'',
       empty_store\<lparr>users_db := users_db empty_store @ [alice]\<rparr>)"
    by blast
  from inst fresh same have second:
    "register_user (alice\<lparr>password := ''q''\<rparr>) (snd (register_user alice empty_store)) =
       (Inl (HTTPException 400 ''User with this email already exists''),
        snd (register_user alice empty_store))"
    by blast
  from first second show ?thesis
    by (simp add: empty_store_def)
qed

text \<open>
  Claim C10. The \<^verbatim>\<open>email\<close> field of \<^verbatim>\<open>User\<close> is declared \<^verbatim>\<open>str\<close>, so the
  schema accepts every string although the comment beside it promises a check of the
  address format: a registration whose email has no \<^verbatim>\<open>@\<close> succeeds on the empty
  store and its record is appended.
\<close>

theorem register_user_accepts_any_email:
  "CHR ''@'' \<notin> set (email no_address)
   \<and> register_user no_address empty_store =
       (Inr ''User registered successfully'',
        \<lparr>users_db = [no_address], reports_db = []\<rparr>)"
  by (simp add: register_user_def empty_store_def no_address_def)

text \<open>
  Claim C6. Login fails, always with the 401 response ``Invalid email or password'',
  exactly when no stored user has the email or the first stored user with the email has
  a different password (equality of strings). On success the response carries the name,
  email, role and location of that first user under exactly these four keys, so no
  \<^verbatim>\<open>password\<close> key; the error response is the fixed text.
\<close>

theorem login_user_outcome:
  "((\<forall>u\<in>set (users_db s). email u \<noteq> login_email l) \<longrightarrow>
      login_user l s = Inl (HTTPException 401 ''Invalid email or password''))
   \<and> (users_db s = pre @ u # post \<and> (\<forall>v\<in>set pre. email v \<noteq> login_email l)
        \<and> email u = login_email l \<longrightarrow>
      login_user l s =
        (if password u = login_password l
         then Inr \<lparr>message = ''Login successful'',
                   user_out = [(''name'', name u), (''email'', email u),
                               (''role'', role u), (''location'', location u)]\<rparr>
         else Inl (HTTPException 401 ''Invalid email or password'')))
   \<and> (isl (login_user l s) \<longleftrightarrow>
        (\<forall>u\<in>set (users_db s). email u \<noteq> login_email l)
        \<or> (\<exists>pre u post. users_db s = pre @ u # post
              \<and> (\<forall>v\<in>set pre. email v \<noteq> login_email l)
              \<and> email u = login_email l \<and> password u \<noteq> login_password l))
   \<and> (\<forall>e. login_user l s = Inl e \<longrightarrow> e = HTTPException 401 ''Invalid email or password'')
   \<and> (\<forall>resp. login_user l s = Inr resp \<longrightarrow>
        map fst (user_out resp) = [''name'', ''email'', ''role'', ''location'']
        \<and> ''password'' \<notin> fst ` set (user_out resp))"
proof -
  let ?P = "\<lambda>u. email u = login_email l"
  let ?bad = "Inl (HTTPException 401 ''Invalid email or password'') :: error + LoginResponse"
  have none: "(\<forall>u\<in>set (users_db s). email u \<noteq> login_email l) \<Longrightarrow> login_user l s = ?bad"
  proof -
    assume "\<forall>u\<in>set (users_db s). email u \<noteq> login_email l"
    then have "find ?P (users_db s) = None"
      by (simp add: find_None_iff)
    then show ?thesis by (simp add: login_user_def)
  qed
  have first: "login_user l s =
        (if password u = login_password l
         then Inr \<lparr>message = ''Login successful'',
                   user_out = [(''name'', name u), (''email'', email u),
                               (''role'', role u), (''location'', location u)]\<rparr>
         else ?bad)"
    if "users_db s = pre @ u # post" "\<forall>v\<in>set pre. email v \<noteq> login_email l"
       "email u = login_email l" for pre u post
  proof -
    from that have "find ?P (users_db s) = Some u"
      using find_first [of pre ?P u post] by simp
    then show ?thesis by (simp add: login_user_def)
  qed
  have fails: "isl (login_user l s) \<longleftrightarrow>
        (\<forall>u\<in>set (users_db s). email u \<noteq> login_email l)
        \<or> (\<exists>pre u post. users_db s = pre @ u # post
              \<and> (\<forall>v\<in>set pre. email v \<noteq> login_email l)
              \<and> email u = login_email l \<and> password u \<noteq> login_password l)"
  proof (cases "find ?P (users_db s)")
    case None
    then have "\<forall>u\<in>set (users_db s). email u \<noteq> login_email l"
      by (simp add: find_None_iff)
    with none show ?thesis by simp
  next
    case (Some w)
    from find_split [OF Some] obtain pre post
      where w: "users_db s = pre @ w # post" "email w = login_email l"
               "\<forall>v\<in>set pre. email v \<noteq> login_email l" by blast
    have some: "\<not> (\<forall>u\<in>set (users_db s). email u \<noteq> login_email l)"
      using w by auto
    have uniq: "u = w"
      if "users_db s = pre' @ u # post'" "\<forall>v\<in>set pre'. email v \<noteq> login_email l"
         "email u = login_email l" for pre' u post'
      using find_first [of pre' ?P u post'] that Some by simp
    show ?thesis
    proof (cases "password w = login_password l")
      case True
      with first [OF w(1) w(3) w(2)] have "\<not> isl (login_user l s)" by simp
      moreover from True uniq
      have "\<not> (\<exists>pre u post. users_db s = pre @ u # post
              \<and> (\<forall>v\<in>set pre. email v \<noteq> login_email l)
              \<and> email u = login_email l \<and> password u \<noteq> login_password l)"
        by blast
      ultimately show ?thesis using some by blast
    next
      case False
      with first [OF w(1) w(3) w(2)] have "isl (login_user l s)" by simp
      moreover from False w
      have "\<exists>pre u post. users_db s = pre @ u # post
              \<and> (\<forall>v\<in>set pre. email v \<noteq> login_email l)
              \<and> email u = login_email l \<and> password u \<noteq> login_password l"
        by blast
      ultimately show ?thesis by blast
    qed
  qed
  have err: "\<forall>e. login_user l s = Inl e \<longrightarrow> e = HTTPException 401 ''Invalid email or password''"
    by (auto simp: login_user_def split: option.splits if_splits)
  have ok: "\<forall>resp. login_user l s = Inr resp \<longrightarrow>
        map fst (user_out resp) = [''name'', ''email'', ''role'', ''location'']
        \<and> ''password'' \<notin> fst ` set (user_out resp)"
    by (auto simp: login_user_def split: option.splits if_splits)
  from none first fails err ok show ?thesis by blast
qed

theorem login_user_outcome_witness:
  "users_db registered_store = [] @ alice # []
   \<and> email alice = login_email \<lparr>login_email = ''a@x.com'', login_password = ''p''\<rparr>
   \<and> login_user \<lparr>login_email = ''a@x.com'', login_password = ''p''\<rparr> registered_store =
       Inr \<lparr>message = ''Login successful'',
            user_out = [(''name'', ''A''), (''email'', ''a@x.com''),
                        (''role'', ''user''), (''location'', ''L'')]\<rparr>
   \<and> login_user \<lparr>login_email = ''a@x.com'', login_password = ''P''\<rparr> registered_store =
       Inl (HTTPException 401 ''Invalid email or password'')
   \<and> login_user \<lparr>login_email = ''b@x.com'', login_password = ''p''\<rparr> registered_store =
       Inl (HTTPException 401 ''Invalid email or password'')"
proof -
  let ?l = "\<lparr>login_email = ''a@x.com'', login_password = ''p''\<rparr>"
  let ?wrong = "\<lparr>login_email = ''a@x.com'', login_password = ''P''\<rparr>"
  let ?unknown = "\<lparr>login_email = ''b@x.com'', login_password = ''p''\<rparr>"
  have split: "users_db registered_store = [] @ alice # []"
    by (simp add: registered_store_def)
  have pre: "\<forall>v\<in>set []. email v \<noteq> e" for e
    by simp
  have hit: "email alice = login_email ?l" "email alice = login_email ?wrong"
    by (simp_all add: alice_def)
  have miss: "\<forall>u\<in>set (users_db registered_store). email u \<noteq> login_email ?unknown"
    by (simp add: registered_store_def alice_def)
  from login_user_outcome [of registered_store ?l "[]" alice "[]"] split pre hit(1)
  have "login_user ?l registered_store =
        (if password alice = login_password ?l
         then Inr \<lparr>message = ''Login successful'',
                   user_out = [(''name'', name alice), (''email'', email alice),
                               (''role'', role alice), (''location'', location alice)]\<rparr>
         else Inl (HTTPException 401 ''Invalid email or password''))"
    by blast
  then have good: "login_user ?l registered_store =
       Inr \<lparr>message = ''Login successful'',
            user_out = [(''name'', ''A''), (''email'', ''a@x.com''),
                        (''role'', ''user''), (''location'', ''L'')]\<rparr>"
    by (simp add: alice_def)
  from login_user_outcome [of registered_store ?wrong "[]" alice "[]"] split pre hit(2)
  have "login_user ?wrong registered_store =
        (if password alice = login_password ?wrong
         then Inr \<lparr>message = ''Login successful'',
                   user_out = [(''name'', name alice), (''email'', email alice),
                               (''role'', role alice), (''location'', location alice)]\<rparr>
         else Inl (HTTPException 401 ''Invalid email or password''))"
    by blast
  then have wrong: "login_user ?wrong registered_store =
       Inl (HTTPException 401 ''Invalid email or password'')"
    by (simp add: alice_def)
  from login_user_outcome [of registered_store ?unknown] miss
  have unknown: "login_user ?unknown registered_store =
       Inl (HTTPException 401 ''Invalid email or password'')"
    by blast
  from split hit(1) good wrong unknown show ?thesis
    by simp
qed

section \<open>Report submission\<close>

text \<open>
  Claim C2, as amended. Report submission fails with the 404 response ``User not found''
  if no stored user has the email; otherwise with a 400 response if the type is
  \<^verbatim>\<open>authority\<close> and the category is absent or the empty string; otherwise with a 400
  response if the type is \<^verbatim>\<open>community\<close> and the alert level is absent or the empty
  string. On each failure the state is unchanged; in every other case exactly one
  record, the dictionary of the request, is appended to the report store.
\<close>

theorem submit_report_outcome:
  "(\<not> (\<exists>u\<in>set (users_db s). email u = report_email r) \<longrightarrow>
      submit_report r s = (Inl (HTTPException 404 ''User not found''), s))
   \<and> ((\<exists>u\<in>set (users_db s). email u = report_email r)
        \<and> report_type r = ''authority''
        \<and> (category r = None \<or> category r = Some '''') \<longrightarrow>
      submit_report r s =
        (Inl (HTTPException 400 ''Category is required for authority reports''), s))
   \<and> ((\<exists>u\<in>set (users_db s). email u = report_email r)
        \<and> report_type r = ''community''
        \<and> (alertLevel r = None \<or> alertLevel r = Some '''') \<longrightarrow>
      submit_report r s =
        (Inl (HTTPException 400 ''Alert level is required for community alerts''), s))
   \<and> ((\<exists>u\<in>set (users_db s). email u = report_email r)
        \<and> \<not> (report_type r = ''authority''
              \<and> (category r = None \<or> category r = Some ''''))
        \<and> \<not> (report_type r = ''community''
              \<and> (alertLevel r = None \<or> alertLevel r = Some '''')) \<longrightarrow>
      submit_report r s =
        (Inr ''Report submitted successfully'',
         s\<lparr>reports_db := reports_db s @ [report_dict r]\<rparr>)
      \<and> length (reports_db (snd (submit_report r s))) = length (reports_db s) + 1
      \<and> users_db (snd (submit_report r s)) = users_db s)"
  by (auto simp: submit_report_def py_not_def list_ex_iff split: option.splits)

theorem submit_report_outcome_witness:
  "submit_report pothole empty_store = (Inl (HTTPException 404 ''User not found''), empty_store)
   \<and> submit_report (pothole\<lparr>category := None\<rparr>) registered_store =
       (Inl (HTTPException 400 ''Category is required for authority reports''),
        registered_store)
   \<and> submit_report (flood\<lparr>alertLevel := None\<rparr>) registered_store =
       (Inl (HTTPException 400 ''Alert level is required for community alerts''),
        registered_store)
   \<and> submit_report pothole registered_store =
       (Inr ''Report submitted successfully'',
        \<lparr>users_db = [alice], reports_db = [report_dict pothole]\<rparr>)"
proof -
  have unknown: "\<not> (\<exists>u\<in>set (users_db empty_store). email u = report_email pothole)"
    by (simp add: empty_store_def)
  have known: "\<exists>u\<in>set (users_db registered_store). email u = ''a@x.com''"
    by (simp add: registered_store_def alice_def)
  from submit_report_outcome [of empty_store pothole] unknown
  have c1: "submit_report pothole empty_store =
      (Inl (HTTPException 404 ''User not found''), empty_store)"
    by blast
  have "report_email (pothole\<lparr>category := None\<rparr>) = ''a@x.com''"
       "report_type (pothole\<lparr>category := None\<rparr>) = ''authority''"
       "category (pothole\<lparr>category := None\<rparr>) = None"
    by (simp_all add: pothole_def)
  with submit_report_outcome [of registered_store "pothole\<lparr>category := None\<rparr>"] known
  have c2: "submit_report (pothole\<lparr>category := None\<rparr>) registered_store =
       (Inl (HTTPException 400 ''Category is required for authority reports''),
        registered_store)"
    by metis
  have "report_email (flood\<lparr>alertLevel := None\<rparr>) = ''a@x.com''"
       "report_type (flood\<lparr>alertLevel := None\<rparr>) = ''community''"
       "alertLevel (flood\<lparr>alertLevel := None\<rparr>) = None"
    by (simp_all add: flood_def)
  with submit_report_outcome [of registered_store "flood\<lparr>alertLevel := None\<rparr>"] known
  have c3: "submit_report (flood\<lparr>alertLevel := None\<rparr>) registered_store =
       (Inl (HTTPException 400 ''Alert level is required for community alerts''),
        registered_store)"
    by metis
  have "report_email pothole = ''a@x.com''"
       "\<not> (report_type pothole = ''authority''
              \<and> (category pothole = None \<or> category pothole = Some ''''))"
       "\<not> (report_type pothole = ''community''
              \<and> (alertLevel pothole = None \<or> alertLevel pothole = Some ''''))"
    by (simp_all add: pothole_def)
  with submit_report_outcome [of registered_store pothole] known
  have c4: "submit_report pothole registered_store =
        (Inr ''Report submitted successfully'',
         registered_store\<lparr>reports_db := reports_db registered_store @ [report_dict pothole]\<rparr>)"
    by metis
  from c1 c2 c3 c4 show ?thesis
    by (simp add: registered_store_def)
qed

text \<open>
  Claim C2 as it was stated counts only an absent category as a failure. An authority
  report of a registered user whose category is present and empty is none of the three
  stated failures, yet the handler tests \<^verbatim>\<open>not report.category\<close>, answers 400 and
  appends nothing.
\<close>

theorem submit_report_blank_category:
  "email alice = report_email blank_category
   \<and> users_db registered_store = [alice]
   \<and> report_type blank_category = ''authority''
   \<and> category blank_category = Some ''''
   \<and> category blank_category \<noteq> None
   \<and> submit_report blank_category registered_store =
       (Inl (HTTPException 400 ''Category is required for authority reports''),
        registered_store)
   \<and> reports_db (snd (submit_report blank_category registered_store))
       \<noteq> reports_db registered_store @ [report_dict blank_category]"
  by (simp add: submit_report_def py_not_def registered_store_def alice_def blank_category_def)

section \<open>Comprehensions, stored reports and reachable stores\<close>

text \<open>
  A comprehension whose element expression never raises is a \<open>map\<close>; one in which
  some element raises, and all that raise raise the same exception, raises it.
\<close>

lemma comprehension_all:
  "(\<And>x. x \<in> set xs \<Longrightarrow> f x = Inr (g x)) \<Longrightarrow> comprehension f xs = Inr (map g xs)"
  by (induction xs) simp_all

lemma comprehension_fail:
  "\<exists>x\<in>set xs. f x = Inl e \<Longrightarrow> (\<And>x e'. x \<in> set xs \<Longrightarrow> f x = Inl e' \<Longrightarrow> e' = e)
     \<Longrightarrow> comprehension f xs = Inl e"
proof (induction xs)
  case Nil
  then show ?case by simp
next
  case (Cons x xs)
  show ?case
  proof (cases "f x")
    case (Inl e')
    with Cons.prems(2) [of x e'] show ?thesis by simp
  next
    case (Inr y)
    with Cons.prems(1) have later: "\<exists>x\<in>set xs. f x = Inl e" by auto
    have "e' = e" if "z \<in> set xs" "f z = Inl e'" for z e'
      using Cons.prems(2) [of z e'] that by simp
    with later have "comprehension f xs = Inl e"
      by (rule Cons.IH)
    with Inr show ?thesis by simp
  qed
qed

lemma comprehension_if_all:
  "(\<And>x. x \<in> set xs \<Longrightarrow> p x = Inr (q x)) \<Longrightarrow> comprehension_if p xs = Inr (filter q xs)"
  by (induction xs) simp_all

lemma subscript_present: "d k = Some v \<Longrightarrow> subscript d k = Inr v"
  by (simp add: subscript_def)

lemma subscript_missing: "d k = None \<Longrightarrow> subscript d k = Inl (KeyError (PStr k))"
  by (simp add: subscript_def)

lemma report_dict_keys:
  "report_dict r ''email'' = Some (PStr (report_email r))"
  "report_dict r ''category'' = Some (optional (category r))"
  "report_dict r ''issue'' = Some (PStr (issue r))"
  "report_dict r ''description'' = Some (PStr (description r))"
  "report_dict r ''location'' = Some (PStr (report_location r))"
  "report_dict r ''seriousness'' = None"
  "report_dict r ''status'' = None"
  "report_dict r ''date'' = None"
  by (simp_all add: report_dict_def)

lemma reachable_reports:
  "reachable s \<Longrightarrow> set (reports_db s) \<subseteq> range report_dict"
proof (induction rule: reachable.induct)
  case start
  show ?case by simp
next
  case (registered s u)
  then show ?case by (simp add: register_user_def)
next
  case (submitted s r)
  then show ?case by (auto simp: submit_report_def)
qed

lemma enumerate_member:
  "d \<in> set db \<Longrightarrow> \<exists>i. (i, d) \<in> set (enumerate 0 db)"
proof -
  assume "d \<in> set db"
  then obtain i where "i < length db" "db ! i = d"
    by (auto simp: in_set_conv_nth)
  then have "(i, d) \<in> set (enumerate 0 db)"
    by (simp add: in_set_enumerate_eq)
  then show ?thesis ..
qed

lemma enumerate_snd:
  "(i, d) \<in> set (enumerate n db) \<Longrightarrow> d \<in> set db"
  by (auto simp: in_set_enumerate_eq)

lemma str_field_PNone: "str_field PNone = Inl ValidationError"
  by (simp add: str_field_def)

lemma str_field_PStr: "str_field (PStr x) = Inr x"
  by (simp add: str_field_def)

lemma str_field_error: "str_field v = Inl e \<Longrightarrow> e = ValidationError"
  by (cases v) (simp_all add: str_field_def)

text \<open>The example stores are reachable.\<close>

lemma reachable_registered_store: "reachable registered_store"
proof -
  have "reachable (snd (register_user alice empty_store))"
    unfolding empty_store_def by (rule reachable.registered [OF reachable.start])
  then show ?thesis
    by (simp add: register_user_def empty_store_def registered_store_def)
qed

lemma reachable_reported_store: "reachable reported_store"
proof -
  have "reachable (snd (submit_report pothole registered_store))"
    by (rule reachable.submitted [OF reachable_registered_store])
  then show ?thesis
    by (simp add: submit_report_def registered_store_def reported_store_def py_not_def
          alice_def pothole_def)
qed

lemma reachable_alert_store: "reachable alert_store"
proof -
  have "reachable (snd (submit_report flood registered_store))"
    by (rule reachable.submitted [OF reachable_registered_store])
  then show ?thesis
    by (simp add: submit_report_def registered_store_def alert_store_def py_not_def
          alice_def flood_def)
qed

lemma reachable_mixed_store: "reachable mixed_store"
proof -
  have "reachable (snd (submit_report flood reported_store))"
    by (rule reachable.submitted [OF reachable_reported_store])
  then show ?thesis
    by (simp add: submit_report_def reported_store_def mixed_store_def py_not_def
          alice_def flood_def)
qed

section \<open>Reports without a category\<close>

lemma validate_ReportOut_error: "validate_ReportOut x = Inl e \<Longrightarrow> e = ValidationError"
  by (auto simp: validate_ReportOut_def bind_def split: sum.splits dest: str_field_error)

lemma validate_ReportOut_none_category:
  "d_category x = PNone \<Longrightarrow> validate_ReportOut x = Inl ValidationError"
  by (simp add: validate_ReportOut_def bind_def str_field_PNone split: sum.splits)
     (auto dest: str_field_error)

lemma new_ReportHistoryItem_error:
  "new_ReportHistoryItem i t c st = Inl e \<Longrightarrow> e = ValidationError"
  by (auto simp: new_ReportHistoryItem_def bind_def split: sum.splits dest: str_field_error)

lemma new_ReportHistoryItem_none_category:
  "new_ReportHistoryItem i t PNone st = Inl ValidationError"
  by (simp add: new_ReportHistoryItem_def bind_def str_field_PNone split: sum.splits)
     (auto dest: str_field_error)

lemma issues_data_keys:
  assumes "\<And>d. d \<in> set db \<Longrightarrow>
             d ''issue'' \<noteq> None \<and> d ''category'' \<noteq> None
             \<and> d ''location'' \<noteq> None \<and> d ''description'' \<noteq> None"
  shows "issues_data db =
           Inr (map (\<lambda>(index, report).
                  \<lparr>d_id = int index + 1,
                   d_title = dict_get report ''issue'' PNone,
                   d_category = dict_get report ''category'' PNone,
                   d_location = dict_get report ''location'' PNone,
                   d_seriousness = dict_get report ''seriousness'' (PStr ''Moderate''),
                   d_description = dict_get report ''description'' PNone\<rparr>)
                (enumerate 0 db))"
  unfolding issues_data_def
proof (rule comprehension_all)
  fix x assume mem: "x \<in> set (enumerate 0 db)"
  obtain i d where x: "x = (i, d)"
    by (cases x)
  with mem have "d \<in> set db"
    by (auto dest: enumerate_snd)
  from assms [OF this] obtain t c l ds
    where "d ''issue'' = Some t" "d ''category'' = Some c"
          "d ''location'' = Some l" "d ''description'' = Some ds"
    by auto
  then show "(case x of (index, report) \<Rightarrow>
         bind (subscript report ''issue'') (\<lambda>title.
         bind (subscript report ''category'') (\<lambda>cat.
         bind (subscript report ''location'') (\<lambda>loc.
         bind (subscript report ''description'') (\<lambda>descr.
           Inr \<lparr>d_id = int index + 1, d_title = title, d_category = cat,
                d_location = loc,
                d_seriousness = dict_get report ''seriousness'' (PStr ''Moderate''),
                d_description = descr\<rparr>))))) =
        Inr (case x of (index, report) \<Rightarrow>
                  \<lparr>d_id = int index + 1,
                   d_title = dict_get report ''issue'' PNone,
                   d_category = dict_get report ''category'' PNone,
                   d_location = dict_get report ''location'' PNone,
                   d_seriousness = dict_get report ''seriousness'' (PStr ''Moderate''),
                   d_description = dict_get report ''description'' PNone\<rparr>)"
    by (simp add: x bind_def subscript_def dict_get_def)
qed

lemma get_all_reports_none_category:
  assumes keys: "\<And>d. d \<in> set (reports_db s) \<Longrightarrow>
             d ''issue'' \<noteq> None \<and> d ''category'' \<noteq> None
             \<and> d ''location'' \<noteq> None \<and> d ''description'' \<noteq> None"
    and d: "d \<in> set (reports_db s)" "d ''category'' = Some PNone"
  shows "get_all_reports s = Inl ValidationError"
proof -
  let ?g = "\<lambda>(index, report).
                  \<lparr>d_id = int index + 1,
                   d_title = dict_get report ''issue'' PNone,
                   d_category = dict_get report ''category'' PNone,
                   d_location = dict_get report ''location'' PNone,
                   d_seriousness = dict_get report ''seriousness'' (PStr ''Moderate''),
                   d_description = dict_get report ''description'' PNone\<rparr>"
  from enumerate_member [OF d(1)] obtain i where i: "(i, d) \<in> set (enumerate 0 (reports_db s))"
    by blast
  from d(2) have "d_category (?g (i, d)) = PNone"
    by (simp add: dict_get_def)
  then have "validate_ReportOut (?g (i, d)) = Inl ValidationError"
    by (rule validate_ReportOut_none_category)
  with i have "\<exists>x\<in>set (map ?g (enumerate 0 (reports_db s))).
                 validate_ReportOut x = Inl ValidationError"
    by force
  then have "comprehension validate_ReportOut (map ?g (enumerate 0 (reports_db s)))
               = Inl ValidationError"
    by (rule comprehension_fail) (rule validate_ReportOut_error)
  then show ?thesis
    by (simp add: get_all_reports_def issues_data_keys [OF keys] bind_def)
qed

lemma user_reports_keys:
  assumes "\<And>d. d \<in> set db \<Longrightarrow> d ''email'' \<noteq> None"
  shows "user_reports em db = Inr (filter (\<lambda>d. d ''email'' = Some (PStr em)) db)"
  unfolding user_reports_def
proof (rule comprehension_if_all)
  fix d assume "d \<in> set db"
  from assms [OF this] obtain v where "d ''email'' = Some v" by auto
  then show "bind (subscript d ''email'') (\<lambda>e. Inr (e = PStr em))
               = Inr (d ''email'' = Some (PStr em))"
    by (simp add: bind_def subscript_def)
qed

lemma report_history_none_category:
  assumes keys: "\<And>d. d \<in> set urs \<Longrightarrow> d ''issue'' \<noteq> None \<and> d ''category'' \<noteq> None"
    and d: "d \<in> set urs" "d ''category'' = Some PNone"
  shows "report_history urs = Inl ValidationError"
  unfolding report_history_def
proof (rule comprehension_fail)
  from enumerate_member [OF d(1)] obtain i where i: "(i, d) \<in> set (enumerate 0 urs)"
    by blast
  from keys [OF d(1)] obtain t where "d ''issue'' = Some t" by auto
  with d(2) have "(case (i, d) of (index, report) \<Rightarrow>
         bind (subscript report ''issue'') (\<lambda>title.
         bind (subscript report ''category'') (\<lambda>cat.
           new_ReportHistoryItem (int index + 1) title cat
             (dict_get report ''status'' (PStr ''Unresolved''))))) = Inl ValidationError"
    by (simp add: bind_def subscript_def new_ReportHistoryItem_none_category)
  with i show "\<exists>x\<in>set (enumerate 0 urs). (case x of (index, report) \<Rightarrow>
         bind (subscript report ''issue'') (\<lambda>title.
         bind (subscript report ''category'') (\<lambda>cat.
           new_ReportHistoryItem (int index + 1) title cat
             (dict_get report ''status'' (PStr ''Unresolved''))))) = Inl ValidationError"
    by blast
next
  fix x e'
  assume x: "x \<in> set (enumerate 0 urs)"
    and e: "(case x of (index, report) \<Rightarrow>
         bind (subscript report ''issue'') (\<lambda>title.
         bind (subscript report ''category'') (\<lambda>cat.
           new_ReportHistoryItem (int index + 1) title cat
             (dict_get report ''status'' (PStr ''Unresolved''))))) = Inl e'"
  obtain i r where xr: "x = (i, r)"
    by (cases x)
  with x have "r \<in> set urs"
    by (auto dest: enumerate_snd)
  from keys [OF this] obtain t c where "r ''issue'' = Some t" "r ''category'' = Some c"
    by auto
  with e xr show "e' = ValidationError"
    by (simp add: bind_def subscript_def) (rule new_ReportHistoryItem_error)
qed

lemma get_user_dashboard_none_category:
  assumes keys: "\<And>d. d \<in> set (reports_db s) \<Longrightarrow>
             d ''email'' \<noteq> None \<and> d ''issue'' \<noteq> None \<and> d ''category'' \<noteq> None"
    and d: "d \<in> set (reports_db s)" "d ''email'' = Some (PStr em)"
           "d ''category'' = Some PNone"
  shows "get_user_dashboard em s = Inl ValidationError"
proof -
  let ?urs = "filter (\<lambda>d. d ''email'' = Some (PStr em)) (reports_db s)"
  have ur: "user_reports em (reports_db s) = Inr ?urs"
    by (rule user_reports_keys) (simp add: keys)
  have "report_history ?urs = Inl ValidationError"
  proof (rule report_history_none_category)
    show "d \<in> set ?urs" using d by simp
    show "d ''category'' = Some PNone" by (rule d(3))
  next
    fix r assume "r \<in> set ?urs"
    then show "r ''issue'' \<noteq> None \<and> r ''category'' \<noteq> None"
      using keys [of r] by simp
  qed
  with ur show ?thesis
    by (simp add: get_user_dashboard_def bind_def Let_def)
qed

text \<open>
  Claim C9. A community alert submitted without a category is stored with
  \<^verbatim>\<open>category = None\<close>. In every reachable store that holds such a report, listing all
  reports fails with the validation error of the response model (\<^verbatim>\<open>ReportOut.category\<close>
  is declared \<^verbatim>\<open>str\<close>), and so does the user dashboard of the report's email
  (\<^verbatim>\<open>ReportHistoryItem.category\<close> is declared \<^verbatim>\<open>str\<close>). The store after one
  registration and one such alert is reachable.
\<close>

theorem none_category_breaks_listing:
  "reachable s \<Longrightarrow> report_dict r \<in> set (reports_db s) \<Longrightarrow> category r = None \<Longrightarrow>
     get_all_reports s = Inl ValidationError
     \<and> get_user_dashboard (report_email r) s = Inl ValidationError"
proof -
  assume re: "reachable s" and mem: "report_dict r \<in> set (reports_db s)"
    and none: "category r = None"
  have keys: "d ''email'' \<noteq> None \<and> d ''issue'' \<noteq> None \<and> d ''category'' \<noteq> None
              \<and> d ''location'' \<noteq> None \<and> d ''description'' \<noteq> None"
    if "d \<in> set (reports_db s)" for d
    using reachable_reports [OF re] that by (auto simp: report_dict_keys)
  from none have cat: "report_dict r ''category'' = Some PNone"
    by (simp add: report_dict_keys optional_def)
  have "get_all_reports s = Inl ValidationError"
    by (rule get_all_reports_none_category [where d = "report_dict r"])
       (use keys mem cat in auto)
  moreover have "get_user_dashboard (report_email r) s = Inl ValidationError"
    by (rule get_user_dashboard_none_category [where d = "report_dict r"])
       (use keys mem cat report_dict_keys(1) [of r] in auto)
  ultimately show ?thesis by simp
qed

theorem none_category_breaks_listing_witness:
  "reachable alert_store \<and> report_dict flood \<in> set (reports_db alert_store)
   \<and> category flood = None
   \<and> get_all_reports alert_store = Inl ValidationError
   \<and> get_user_dashboard ''a@x.com'' alert_store = Inl ValidationError"
proof -
  have mem: "report_dict flood \<in> set (reports_db alert_store)"
    by (simp add: alert_store_def)
  have none: "category flood = None"
    by (simp add: flood_def)
  have em: "report_email flood = ''a@x.com''"
    by (simp add: flood_def)
  from none_category_breaks_listing [OF reachable_alert_store mem none]
       reachable_alert_store mem none em
  show ?thesis by simp
qed

section \<open>Listing all reports\<close>

text \<open>
  When every stored report has text under \<^verbatim>\<open>issue\<close>, \<^verbatim>\<open>category\<close>,
  \<^verbatim>\<open>location\<close> and \<^verbatim>\<open>description\<close>, and its seriousness is absent or text, the
  handler returns one summary per report, in the order of the store, numbered from 1,
  the seriousness defaulting to ``Moderate''.
\<close>

lemma validate_ReportOut_text:
  assumes "d_title x = PStr t" "d_category x = PStr c" "d_location x = PStr l"
    "d_seriousness x = PStr se" "d_description x = PStr ds"
  shows "validate_ReportOut x =
           Inr \<lparr>ro_id = d_id x, ro_title = t, ro_category = c, ro_location = l,
                ro_seriousness = se, ro_description = ds\<rparr>"
  using assms by (simp add: validate_ReportOut_def bind_def str_field_PStr)

lemma get_all_reports_text:
  assumes texts: "\<And>d. d \<in> set (reports_db s) \<Longrightarrow>
      (\<exists>t. d ''issue'' = Some (PStr t)) \<and> (\<exists>c. d ''category'' = Some (PStr c))
      \<and> (\<exists>l. d ''location'' = Some (PStr l)) \<and> (\<exists>x. d ''description'' = Some (PStr x))
      \<and> d ''seriousness'' \<noteq> Some PNone"
  shows "get_all_reports s =
           Inr (map (\<lambda>(index, report).
                  \<lparr>ro_id = int index + 1,
                   ro_title = py_str (dict_get report ''issue'' PNone),
                   ro_category = py_str (dict_get report ''category'' PNone),
                   ro_location = py_str (dict_get report ''location'' PNone),
                   ro_seriousness = py_str (dict_get report ''seriousness'' (PStr ''Moderate'')),
                   ro_description = py_str (dict_get report ''description'' PNone)\<rparr>)
                (enumerate 0 (reports_db s)))"
proof -
  let ?raw = "\<lambda>(index, report).
                  \<lparr>d_id = int index + 1,
                   d_title = dict_get report ''issue'' PNone,
                   d_category = dict_get report ''category'' PNone,
                   d_location = dict_get report ''location'' PNone,
                   d_seriousness = dict_get report ''seriousness'' (PStr ''Moderate''),
                   d_description = dict_get report ''description'' PNone\<rparr>"
  let ?out = "\<lambda>x. \<lparr>ro_id = d_id x, ro_title = py_str (d_title x),
                   ro_category = py_str (d_category x), ro_location = py_str (d_location x),
                   ro_seriousness = py_str (d_seriousness x),
                   ro_description = py_str (d_description x)\<rparr>"
  have raw: "issues_data (reports_db s) = Inr (map ?raw (enumerate 0 (reports_db s)))"
    by (rule issues_data_keys) (use texts in force)
  have "comprehension validate_ReportOut (map ?raw (enumerate 0 (reports_db s)))
          = Inr (map ?out (map ?raw (enumerate 0 (reports_db s))))"
  proof (rule comprehension_all)
    fix x assume "x \<in> set (map ?raw (enumerate 0 (reports_db s)))"
    then obtain i d where x: "x = ?raw (i, d)" and "(i, d) \<in> set (enumerate 0 (reports_db s))"
      by auto
    then have "d \<in> set (reports_db s)"
      by (auto dest: enumerate_snd)
    from texts [OF this] obtain t c l ds where
      "d ''issue'' = Some (PStr t)" "d ''category'' = Some (PStr c)"
      "d ''location'' = Some (PStr l)" "d ''description'' = Some (PStr ds)"
      "d ''seriousness'' \<noteq> Some PNone"
      by auto
    moreover from this(5) obtain se where "dict_get d ''seriousness'' (PStr ''Moderate'') = PStr se"
      by (cases "d ''seriousness''"; cases "dict_get d ''seriousness'' (PStr ''Moderate'')")
         (auto simp: dict_get_def)
    ultimately show "validate_ReportOut x = Inr (?out x)"
      by (simp add: x dict_get_def py_str_def validate_ReportOut_text)
  qed
  with raw show ?thesis
    by (simp add: get_all_reports_def bind_def comp_def case_prod_beta)
qed

text \<open>
  Claim C7. The store after one registration, an authority report and a community
  alert without a category is reachable and holds two reports. Listing all reports
  returns the summary of the claim for the authority report alone, but with the alert
  in the store it returns no summaries: the \<^verbatim>\<open>None\<close> category fails the validation of
  \<^verbatim>\<open>ReportOut.category\<close>.
\<close>

theorem get_all_reports_fails_on_alert:
  "reachable mixed_store
   \<and> reports_db mixed_store = [report_dict pothole, report_dict flood]
   \<and> get_all_reports reported_store =
       Inr [\<lparr>ro_id = 1, ro_title = ''Pothole'', ro_category = ''Roads'', ro_location = ''L'',
             ro_seriousness = ''Moderate'', ro_description = ''d''\<rparr>]
   \<and> get_all_reports mixed_store = Inl ValidationError"
proof -
  have "get_all_reports reported_store =
       Inr [\<lparr>ro_id = 1, ro_title = ''Pothole'', ro_category = ''Roads'', ro_location = ''L'',
             ro_seriousness = ''Moderate'', ro_description = ''d''\<rparr>]"
    by (simp add: get_all_reports_def issues_data_def validate_ReportOut_def bind_def
          subscript_def dict_get_def report_dict_keys reported_store_def pothole_def
          optional_def str_field_def)
  moreover have "get_all_reports mixed_store = Inl ValidationError"
    by (simp add: get_all_reports_def issues_data_def validate_ReportOut_def bind_def
          subscript_def dict_get_def report_dict_keys mixed_store_def pothole_def flood_def
          optional_def str_field_def)
  ultimately show ?thesis
    using reachable_mixed_store by (simp add: mixed_store_def)
qed

section \<open>The user dashboard on text categories\<close>

text \<open>
  When the reports of the queried email have text under \<^verbatim>\<open>issue\<close> and
  \<^verbatim>\<open>category\<close> and a status that is absent or text, the dashboard is computed from
  exactly those reports: the counts, the history numbered from 1 within them, and one
  notification per resolved report.
\<close>

lemma new_ReportHistoryItem_text:
  "new_ReportHistoryItem i (PStr t) (PStr c) (PStr st) =
     Inr \<lparr>rh_id = i, rh_title = t, rh_category = c, rh_status = st\<rparr>"
  by (simp add: new_ReportHistoryItem_def bind_def str_field_PStr)

lemma report_history_text:
  assumes texts: "\<And>d. d \<in> set urs \<Longrightarrow>
      (\<exists>t. d ''issue'' = Some (PStr t)) \<and> (\<exists>c. d ''category'' = Some (PStr c))
      \<and> d ''status'' \<noteq> Some PNone"
  shows "report_history urs =
           Inr (map (\<lambda>(index, report).
                  \<lparr>rh_id = int index + 1,
                   rh_title = py_str (dict_get report ''issue'' PNone),
                   rh_category = py_str (dict_get report ''category'' PNone),
                   rh_status = py_str (dict_get report ''status'' (PStr ''Unresolved''))\<rparr>)
                (enumerate 0 urs))"
  unfolding report_history_def
proof (rule comprehension_all)
  fix x assume mem: "x \<in> set (enumerate 0 urs)"
  obtain i d where x: "x = (i, d)"
    by (cases x)
  with mem have "d \<in> set urs"
    by (auto dest: enumerate_snd)
  from texts [OF this] obtain t c where
    d: "d ''issue'' = Some (PStr t)" "d ''category'' = Some (PStr c)"
       "d ''status'' \<noteq> Some PNone"
    by auto
  from d(3) obtain st where "dict_get d ''status'' (PStr ''Unresolved'') = PStr st"
    by (cases "d ''status''"; cases "dict_get d ''status'' (PStr ''Unresolved'')")
       (auto simp: dict_get_def)
  with d show "(case x of (index, report) \<Rightarrow>
         bind (subscript report ''issue'') (\<lambda>title.
         bind (subscript report ''category'') (\<lambda>cat.
           new_ReportHistoryItem (int index + 1) title cat
             (dict_get report ''status'' (PStr ''Unresolved''))))) =
        Inr (case x of (index, report) \<Rightarrow>
                  \<lparr>rh_id = int index + 1,
                   rh_title = py_str (dict_get report ''issue'' PNone),
                   rh_category = py_str (dict_get report ''category'' PNone),
                   rh_status = py_str (dict_get report ''status'' (PStr ''Unresolved''))\<rparr>)"
    by (simp add: x bind_def subscript_def new_ReportHistoryItem_text py_str_def)
       (simp add: dict_get_def)
qed

lemma notifications_of_keys:
  assumes "\<And>d. d \<in> set urs \<Longrightarrow> d ''issue'' \<noteq> None"
  shows "notifications_of urs =
           Inr (map (\<lambda>report. ''Your report '' @ [CHR 0x27]
                       @ py_str (dict_get report ''issue'' PNone) @ [CHR 0x27]
                       @ '' has been marked as resolved.'')
                 (filter is_resolved urs))"
  unfolding notifications_of_def
proof (rule comprehension_all)
  fix d assume "d \<in> set (filter is_resolved urs)"
  then have "d \<in> set urs" by simp
  from assms [OF this] obtain v where "d ''issue'' = Some v" by auto
  then show "bind (subscript d ''issue'') (\<lambda>title.
           Inr (''Your report '' @ [CHR 0x27] @ py_str title @ [CHR 0x27]
                @ '' has been marked as resolved.'')) =
        Inr (''Your report '' @ [CHR 0x27]
                       @ py_str (dict_get d ''issue'' PNone) @ [CHR 0x27]
                       @ '' has been marked as resolved.'')"
    by (simp add: bind_def subscript_def dict_get_def)
qed

lemma get_user_dashboard_text:
  assumes emails: "\<And>d. d \<in> set (reports_db s) \<Longrightarrow> d ''email'' \<noteq> None"
    and texts: "\<And>d. d \<in> set (reports_db s) \<Longrightarrow> d ''email'' = Some (PStr em) \<Longrightarrow>
      (\<exists>t. d ''issue'' = Some (PStr t)) \<and> (\<exists>c. d ''category'' = Some (PStr c))
      \<and> d ''status'' \<noteq> Some PNone"
  shows "get_user_dashboard em s =
     Inr \<lparr>userStats =
            \<lparr>us_totalReports =
               int (length (filter (\<lambda>d. d ''email'' = Some (PStr em)) (reports_db s))),
             us_resolvedReports =
               int (length (filter is_resolved
                      (filter (\<lambda>d. d ''email'' = Some (PStr em)) (reports_db s)))),
             us_unresolvedReports =
               int (length (filter (\<lambda>d. d ''email'' = Some (PStr em)) (reports_db s)))
               - int (length (filter is_resolved
                      (filter (\<lambda>d. d ''email'' = Some (PStr em)) (reports_db s))))\<rparr>,
          reportHistory =
            map (\<lambda>(index, report).
                  \<lparr>rh_id = int index + 1,
                   rh_title = py_str (dict_get report ''issue'' PNone),
                   rh_category = py_str (dict_get report ''category'' PNone),
                   rh_status = py_str (dict_get report ''status'' (PStr ''Unresolved''))\<rparr>)
              (enumerate 0 (filter (\<lambda>d. d ''email'' = Some (PStr em)) (reports_db s))),
          notifications =
            map (\<lambda>report. ''Your report '' @ [CHR 0x27]
                       @ py_str (dict_get report ''issue'' PNone) @ [CHR 0x27]
                       @ '' has been marked as resolved.'')
              (filter is_resolved
                 (filter (\<lambda>d. d ''email'' = Some (PStr em)) (reports_db s)))\<rparr>"
proof -
  let ?urs = "filter (\<lambda>d. d ''email'' = Some (PStr em)) (reports_db s)"
  have ur: "user_reports em (reports_db s) = Inr ?urs"
    by (rule user_reports_keys) (rule emails)
  have own: "(\<exists>t. d ''issue'' = Some (PStr t)) \<and> (\<exists>c. d ''category'' = Some (PStr c))
      \<and> d ''status'' \<noteq> Some PNone" if "d \<in> set ?urs" for d
    using that texts [of d] by simp
  have hist: "report_history ?urs =
           Inr (map (\<lambda>(index, report).
                  \<lparr>rh_id = int index + 1,
                   rh_title = py_str (dict_get report ''issue'' PNone),
                   rh_category = py_str (dict_get report ''category'' PNone),
                   rh_status = py_str (dict_get report ''status'' (PStr ''Unresolved''))\<rparr>)
                (enumerate 0 ?urs))"
    by (rule report_history_text) (rule own)
  have msgs: "notifications_of ?urs =
           Inr (map (\<lambda>report. ''Your report '' @ [CHR 0x27]
                       @ py_str (dict_get report ''issue'' PNone) @ [CHR 0x27]
                       @ '' has been marked as resolved.'')
                 (filter is_resolved ?urs))"
    by (rule notifications_of_keys) (use own in force)
  show ?thesis
    by (simp add: get_user_dashboard_def ur hist msgs bind_def Let_def)
qed

text \<open>
  Claim C5. In the reachable store that holds an authority report and a community alert
  without a category, both of the queried email, the user dashboard returns no response:
  constructing the \<^verbatim>\<open>ReportHistoryItem\<close> of the alert fails on its \<^verbatim>\<open>None\<close>
  category, where the claim has two reports and a history of length two. With the
  authority report alone the dashboard is the one the claim describes.
\<close>

theorem get_user_dashboard_fails_on_alert:
  "reachable mixed_store
   \<and> user_reports ''a@x.com'' (reports_db mixed_store)
       = Inr [report_dict pothole, report_dict flood]
   \<and> get_user_dashboard ''a@x.com'' reported_store =
       Inr \<lparr>userStats = \<lparr>us_totalReports = 1, us_resolvedReports = 0,
                          us_unresolvedReports = 1\<rparr>,
            reportHistory = [\<lparr>rh_id = 1, rh_title = ''Pothole'', rh_category = ''Roads'',
                              rh_status = ''Unresolved''\<rparr>],
            notifications = []\<rparr>
   \<and> get_user_dashboard ''a@x.com'' mixed_store = Inl ValidationError"
proof -
  have ur: "user_reports ''a@x.com'' (reports_db mixed_store)
       = Inr [report_dict pothole, report_dict flood]"
    by (simp add: user_reports_def bind_def subscript_def report_dict_keys mixed_store_def
          pothole_def flood_def)
  have ur1: "user_reports ''a@x.com'' (reports_db reported_store) = Inr [report_dict pothole]"
    by (simp add: user_reports_def bind_def subscript_def report_dict_keys reported_store_def
          pothole_def)
  have ok: "get_user_dashboard ''a@x.com'' reported_store =
       Inr \<lparr>userStats = \<lparr>us_totalReports = 1, us_resolvedReports = 0,
                          us_unresolvedReports = 1\<rparr>,
            reportHistory = [\<lparr>rh_id = 1, rh_title = ''Pothole'', rh_category = ''Roads'',
                              rh_status = ''Unresolved''\<rparr>],
            notifications = []\<rparr>"
    by (simp add: get_user_dashboard_def ur1 bind_def Let_def report_history_def
          notifications_of_def is_resolved_def new_ReportHistoryItem_def subscript_def
          dict_get_def report_dict_keys pothole_def optional_def str_field_def)
  have bad: "get_user_dashboard ''a@x.com'' mixed_store = Inl ValidationError"
    by (simp add: get_user_dashboard_def ur bind_def Let_def report_history_def
          notifications_of_def is_resolved_def new_ReportHistoryItem_def subscript_def
          dict_get_def report_dict_keys pothole_def flood_def optional_def str_field_def)
  from ur ok bad reachable_mixed_store show ?thesis by simp
qed

section \<open>The seriousness buckets\<close>

lemma seriousness_counts_labels:
  assumes "\<forall>report\<in>set db. dict_get report ''seriousness'' (PStr ''Moderate'')
             \<in> set [PStr ''Low'', PStr ''Moderate'', PStr ''High'', PStr ''Critical'']"
  shows "seriousness_counts
           [(PStr ''Low'', a), (PStr ''Moderate'', b), (PStr ''High'', c), (PStr ''Critical'', e)]
           db =
         Inr [(PStr ''Low'', a + int (length (filter (\<lambda>report.
                  dict_get report ''seriousness'' (PStr ''Moderate'') = PStr ''Low'') db))),
              (PStr ''Moderate'', b + int (length (filter (\<lambda>report.
                  dict_get report ''seriousness'' (PStr ''Moderate'') = PStr ''Moderate'') db))),
              (PStr ''High'', c + int (length (filter (\<lambda>report.
                  dict_get report ''seriousness'' (PStr ''Moderate'') = PStr ''High'') db))),
              (PStr ''Critical'', e + int (length (filter (\<lambda>report.
                  dict_get report ''seriousness'' (PStr ''Moderate'') = PStr ''Critical'') db)))]"
  using assms
proof (induction db arbitrary: a b c e)
  case Nil
  show ?case by simp
next
  case (Cons d db)
  then have rest: "\<forall>report\<in>set db. dict_get report ''seriousness'' (PStr ''Moderate'')
             \<in> set [PStr ''Low'', PStr ''Moderate'', PStr ''High'', PStr ''Critical'']"
    by simp
  from Cons.prems consider
      (low) "dict_get d ''seriousness'' (PStr ''Moderate'') = PStr ''Low''"
    | (moderate) "dict_get d ''seriousness'' (PStr ''Moderate'') = PStr ''Moderate''"
    | (high) "dict_get d ''seriousness'' (PStr ''Moderate'') = PStr ''High''"
    | (critical) "dict_get d ''seriousness'' (PStr ''Moderate'') = PStr ''Critical''"
    by auto
  then show ?case
  proof cases
    case low
    then show ?thesis by (simp add: Cons.IH [OF rest] Let_def)
  next
    case moderate
    then show ?thesis by (simp add: Cons.IH [OF rest] Let_def)
  next
    case high
    then show ?thesis by (simp add: Cons.IH [OF rest] Let_def)
  next
    case critical
    then show ?thesis by (simp add: Cons.IH [OF rest] Let_def)
  qed
qed

lemma labels_partition:
  assumes "\<forall>report\<in>set db. dict_get report ''seriousness'' (PStr ''Moderate'')
             \<in> set [PStr ''Low'', PStr ''Moderate'', PStr ''High'', PStr ''Critical'']"
  shows "length (filter (\<lambda>report.
                  dict_get report ''seriousness'' (PStr ''Moderate'') = PStr ''Low'') db)
         + length (filter (\<lambda>report.
                  dict_get report ''seriousness'' (PStr ''Moderate'') = PStr ''Moderate'') db)
         + length (filter (\<lambda>report.
                  dict_get report ''seriousness'' (PStr ''Moderate'') = PStr ''High'') db)
         + length (filter (\<lambda>report.
                  dict_get report ''seriousness'' (PStr ''Moderate'') = PStr ''Critical'') db)
         = length db"
  using assms by (induction db) auto

lemma reachable_labels:
  "reachable s \<Longrightarrow> report \<in> set (reports_db s) \<Longrightarrow>
     dict_get report ''seriousness'' (PStr ''Moderate'') = PStr ''Moderate''"
  using reachable_reports [of s] by (auto simp: dict_get_def report_dict_keys)

lemma get_authority_dashboard_empty:
  "reports_db s = [] \<Longrightarrow>
     get_authority_dashboard s =
       Inr \<lparr>globalStats = \<lparr>gs_totalReports = 0, gs_resolvedReports = 0,
                            gs_unresolvedReports = 0, gs_highPriorityReports = 0\<rparr>,
            issuesByCategory = [],
            issuesBySeriousness =
              [\<lparr>is_seriousness = ''Low'', is_count = 0\<rparr>,
               \<lparr>is_seriousness = ''Moderate'', is_count = 0\<rparr>,
               \<lparr>is_seriousness = ''High'', is_count = 0\<rparr>,
               \<lparr>is_seriousness = ''Critical'', is_count = 0\<rparr>],
            issueList = []\<rparr>"
  by (simp add: get_authority_dashboard_def issues_by_category_def issues_by_seriousness_def
        issue_list_def global_stats_def bind_def new_IssueBySeriousness_def str_field_PStr)

lemma graded_labels:
  "dict_get (graded label) ''seriousness'' dflt = PStr label"
  "dict_get (report_dict r) ''seriousness'' dflt = dflt"
  by (simp_all add: graded_def dict_get_def report_dict_keys)

lemma buckets_of_labels:
  "(\<forall>report\<in>set (reports_db s). dict_get report ''seriousness'' (PStr ''Moderate'')
       \<in> set [PStr ''Low'', PStr ''Moderate'', PStr ''High'', PStr ''Critical''])
   \<longrightarrow>
   (\<exists>low moderate high critical.
      issues_by_seriousness (reports_db s) =
        Inr [\<lparr>is_seriousness = ''Low'', is_count = low\<rparr>,
             \<lparr>is_seriousness = ''Moderate'', is_count = moderate\<rparr>,
             \<lparr>is_seriousness = ''High'', is_count = high\<rparr>,
             \<lparr>is_seriousness = ''Critical'', is_count = critical\<rparr>]
      \<and> low = int (length (filter (\<lambda>report.
                  dict_get report ''seriousness'' (PStr ''Moderate'') = PStr ''Low'')
                (reports_db s)))
      \<and> moderate = int (length (filter (\<lambda>report.
                  dict_get report ''seriousness'' (PStr ''Moderate'') = PStr ''Moderate'')
                (reports_db s)))
      \<and> high = int (length (filter (\<lambda>report.
                  dict_get report ''seriousness'' (PStr ''Moderate'') = PStr ''High'')
                (reports_db s)))
      \<and> critical = int (length (filter (\<lambda>report.
                  dict_get report ''seriousness'' (PStr ''Moderate'') = PStr ''Critical'')
                (reports_db s)))
      \<and> low + moderate + high + critical = gs_totalReports (global_stats (reports_db s)))"
proof
  assume labels: "\<forall>report\<in>set (reports_db s). dict_get report ''seriousness'' (PStr ''Moderate'')
       \<in> set [PStr ''Low'', PStr ''Moderate'', PStr ''High'', PStr ''Critical'']"
  have total: "gs_totalReports (global_stats (reports_db s)) = int (length (reports_db s))"
    by (simp add: global_stats_def Let_def)
  have buckets: "issues_by_seriousness (reports_db s) =
        Inr [\<lparr>is_seriousness = ''Low'', is_count = int (length (filter (\<lambda>report.
                  dict_get report ''seriousness'' (PStr ''Moderate'') = PStr ''Low'')
                (reports_db s)))\<rparr>,
             \<lparr>is_seriousness = ''Moderate'', is_count = int (length (filter (\<lambda>report.
                  dict_get report ''seriousness'' (PStr ''Moderate'') = PStr ''Moderate'')
                (reports_db s)))\<rparr>,
             \<lparr>is_seriousness = ''High'', is_count = int (length (filter (\<lambda>report.
                  dict_get report ''seriousness'' (PStr ''Moderate'') = PStr ''High'')
                (reports_db s)))\<rparr>,
             \<lparr>is_seriousness = ''Critical'', is_count = int (length (filter (\<lambda>report.
                  dict_get report ''seriousness'' (PStr ''Moderate'') = PStr ''Critical'')
                (reports_db s)))\<rparr>]"
    by (simp add: issues_by_seriousness_def seriousness_counts_labels [OF labels] bind_def
          new_IssueBySeriousness_def str_field_PStr)
  from labels_partition [OF labels] total
  have "int (length (filter (\<lambda>report.
                  dict_get report ''seriousness'' (PStr ''Moderate'') = PStr ''Low'')
                (reports_db s)))
        + int (length (filter (\<lambda>report.
                  dict_get report ''seriousness'' (PStr ''Moderate'') = PStr ''Moderate'')
                (reports_db s)))
        + int (length (filter (\<lambda>report.
                  dict_get report ''seriousness'' (PStr ''Moderate'') = PStr ''High'')
                (reports_db s)))
        + int (length (filter (\<lambda>report.
                  dict_get report ''seriousness'' (PStr ''Moderate'') = PStr ''Critical'')
                (reports_db s)))
        = gs_totalReports (global_stats (reports_db s))"
    by linarith
  with buckets show "\<exists>low moderate high critical.
      issues_by_seriousness (reports_db s) =
        Inr [\<lparr>is_seriousness = ''Low'', is_count = low\<rparr>,
             \<lparr>is_seriousness = ''Moderate'', is_count = moderate\<rparr>,
             \<lparr>is_seriousness = ''High'', is_count = high\<rparr>,
             \<lparr>is_seriousness = ''Critical'', is_count = critical\<rparr>]
      \<and> low = int (length (filter (\<lambda>report.
                  dict_get report ''seriousness'' (PStr ''Moderate'') = PStr ''Low'')
                (reports_db s)))
      \<and> moderate = int (length (filter (\<lambda>report.
                  dict_get report ''seriousness'' (PStr ''Moderate'') = PStr ''Moderate'')
                (reports_db s)))
      \<and> high = int (length (filter (\<lambda>report.
                  dict_get report ''seriousness'' (PStr ''Moderate'') = PStr ''High'')
                (reports_db s)))
      \<and> critical = int (length (filter (\<lambda>report.
                  dict_get report ''seriousness'' (PStr ''Moderate'') = PStr ''Critical'')
                (reports_db s)))
      \<and> low + moderate + high + critical = gs_totalReports (global_stats (reports_db s))"
    by blast
qed

lemma buckets_of_reachable:
  assumes "reachable s"
  shows "issues_by_seriousness (reports_db s) =
          Inr [\<lparr>is_seriousness = ''Low'', is_count = 0\<rparr>,
               \<lparr>is_seriousness = ''Moderate'', is_count = int (length (reports_db s))\<rparr>,
               \<lparr>is_seriousness = ''High'', is_count = 0\<rparr>,
               \<lparr>is_seriousness = ''Critical'', is_count = 0\<rparr>]"
proof -
  note moderate = reachable_labels [OF assms]
  have labels: "\<forall>report\<in>set (reports_db s).
       dict_get report ''seriousness'' (PStr ''Moderate'')
       \<in> set [PStr ''Low'', PStr ''Moderate'', PStr ''High'', PStr ''Critical'']"
    by (simp add: moderate)
  have none: "filter (\<lambda>report.
                  dict_get report ''seriousness'' (PStr ''Moderate'') = PStr label)
                (reports_db s) = []" if "label \<noteq> ''Moderate''" for label
    using that by (simp add: filter_empty_conv moderate)
  have every: "filter (\<lambda>report.
                  dict_get report ''seriousness'' (PStr ''Moderate'') = PStr ''Moderate'')
                (reports_db s) = reports_db s"
    by (simp add: filter_id_conv moderate)
  show ?thesis
    by (simp add: issues_by_seriousness_def seriousness_counts_labels [OF labels] bind_def
          new_IssueBySeriousness_def str_field_PStr none every)
qed

text \<open>
  Claim C4. For every report store whose reports carry no seriousness or one of the four
  labels, \<^verbatim>\<open>issues_by_seriousness\<close> is the four buckets Low, Moderate, High, Critical in
  this order, each holding the number of reports with that label, a report without a
  seriousness counted as Moderate, and the four counts add up to \<^verbatim>\<open>totalReports\<close>.
  Every reachable store is such a store: there all reports are in the Moderate bucket.
  With no reports the whole dashboard is returned, with the four buckets at 0.
\<close>

theorem issues_by_seriousness_buckets:
  "((\<forall>report\<in>set (reports_db s). dict_get report ''seriousness'' (PStr ''Moderate'')
       \<in> set [PStr ''Low'', PStr ''Moderate'', PStr ''High'', PStr ''Critical''])
   \<longrightarrow>
   (\<exists>low moderate high critical.
      issues_by_seriousness (reports_db s) =
        Inr [\<lparr>is_seriousness = ''Low'', is_count = low\<rparr>,
             \<lparr>is_seriousness = ''Moderate'', is_count = moderate\<rparr>,
             \<lparr>is_seriousness = ''High'', is_count = high\<rparr>,
             \<lparr>is_seriousness = ''Critical'', is_count = critical\<rparr>]
      \<and> low = int (length (filter (\<lambda>report.
                  dict_get report ''seriousness'' (PStr ''Moderate'') = PStr ''Low'')
                (reports_db s)))
      \<and> moderate = int (length (filter (\<lambda>report.
                  dict_get report ''seriousness'' (PStr ''Moderate'') = PStr ''Moderate'')
                (reports_db s)))
      \<and> high = int (length (filter (\<lambda>report.
                  dict_get report ''seriousness'' (PStr ''Moderate'') = PStr ''High'')
                (reports_db s)))
      \<and> critical = int (length (filter (\<lambda>report.
                  dict_get report ''seriousness'' (PStr ''Moderate'') = PStr ''Critical'')
                (reports_db s)))
      \<and> low + moderate + high + critical = gs_totalReports (global_stats (reports_db s))))
   \<and> (reachable s \<longrightarrow>
        issues_by_seriousness (reports_db s) =
          Inr [\<lparr>is_seriousness = ''Low'', is_count = 0\<rparr>,
               \<lparr>is_seriousness = ''Moderate'', is_count = int (length (reports_db s))\<rparr>,
               \<lparr>is_seriousness = ''High'', is_count = 0\<rparr>,
               \<lparr>is_seriousness = ''Critical'', is_count = 0\<rparr>])
   \<and> (reports_db s = [] \<longrightarrow>
        get_authority_dashboard s =
          Inr \<lparr>globalStats = \<lparr>gs_totalReports = 0, gs_resolvedReports = 0,
                               gs_unresolvedReports = 0, gs_highPriorityReports = 0\<rparr>,
               issuesByCategory = [],
               issuesBySeriousness =
                 [\<lparr>is_seriousness = ''Low'', is_count = 0\<rparr>,
                  \<lparr>is_seriousness = ''Moderate'', is_count = 0\<rparr>,
                  \<lparr>is_seriousness = ''High'', is_count = 0\<rparr>,
                  \<lparr>is_seriousness = ''Critical'', is_count = 0\<rparr>],
               issueList = []\<rparr>)"
  using buckets_of_labels [of s] buckets_of_reachable [of s] get_authority_dashboard_empty [of s]
  by blast

theorem issues_by_seriousness_buckets_witness:
  "issues_by_seriousness (reports_db graded_store) =
     Inr [\<lparr>is_seriousness = ''Low'', is_count = 1\<rparr>,
          \<lparr>is_seriousness = ''Moderate'', is_count = 1\<rparr>,
          \<lparr>is_seriousness = ''High'', is_count = 2\<rparr>,
          \<lparr>is_seriousness = ''Critical'', is_count = 0\<rparr>]
   \<and> gs_totalReports (global_stats (reports_db graded_store)) = 4
   \<and> reachable reported_store
   \<and> issues_by_seriousness (reports_db reported_store) =
       Inr [\<lparr>is_seriousness = ''Low'', is_count = 0\<rparr>,
            \<lparr>is_seriousness = ''Moderate'', is_count = 1\<rparr>,
            \<lparr>is_seriousness = ''High'', is_count = 0\<rparr>,
            \<lparr>is_seriousness = ''Critical'', is_count = 0\<rparr>]
   \<and> get_authority_dashboard empty_store =
       Inr \<lparr>globalStats = \<lparr>gs_totalReports = 0, gs_resolvedReports = 0,
                            gs_unresolvedReports = 0, gs_highPriorityReports = 0\<rparr>,
            issuesByCategory = [],
            issuesBySeriousness =
              [\<lparr>is_seriousness = ''Low'', is_count = 0\<rparr>,
               \<lparr>is_seriousness = ''Moderate'', is_count = 0\<rparr>,
               \<lparr>is_seriousness = ''High'', is_count = 0\<rparr>,
               \<lparr>is_seriousness = ''Critical'', is_count = 0\<rparr>],
            issueList = []\<rparr>"
proof -
  have labels: "\<forall>report\<in>set (reports_db graded_store).
       dict_get report ''seriousness'' (PStr ''Moderate'')
       \<in> set [PStr ''Low'', PStr ''Moderate'', PStr ''High'', PStr ''Critical'']"
    by (simp add: graded_store_def graded_labels)
  from issues_by_seriousness_buckets [of graded_store] labels
  obtain low moderate high critical where
    "issues_by_seriousness (reports_db graded_store) =
        Inr [\<lparr>is_seriousness = ''Low'', is_count = low\<rparr>,
             \<lparr>is_seriousness = ''Moderate'', is_count = moderate\<rparr>,
             \<lparr>is_seriousness = ''High'', is_count = high\<rparr>,
             \<lparr>is_seriousness = ''Critical'', is_count = critical\<rparr>]"
    "low = int (length (filter (\<lambda>report.
                  dict_get report ''seriousness'' (PStr ''Moderate'') = PStr ''Low'')
                (reports_db graded_store)))"
    "moderate = int (length (filter (\<lambda>report.
                  dict_get report ''seriousness'' (PStr ''Moderate'') = PStr ''Moderate'')
                (reports_db graded_store)))"
    "high = int (length (filter (\<lambda>report.
                  dict_get report ''seriousness'' (PStr ''Moderate'') = PStr ''High'')
                (reports_db graded_store)))"
    "critical = int (length (filter (\<lambda>report.
                  dict_get report ''seriousness'' (PStr ''Moderate'') = PStr ''Critical'')
                (reports_db graded_store)))"
    "low + moderate + high + critical = gs_totalReports (global_stats (reports_db graded_store))"
    by blast
  then have graded: "issues_by_seriousness (reports_db graded_store) =
     Inr [\<lparr>is_seriousness = ''Low'', is_count = 1\<rparr>,
          \<lparr>is_seriousness = ''Moderate'', is_count = 1\<rparr>,
          \<lparr>is_seriousness = ''High'', is_count = 2\<rparr>,
          \<lparr>is_seriousness = ''Critical'', is_count = 0\<rparr>]
   \<and> gs_totalReports (global_stats (reports_db graded_store)) = 4"
    by (simp add: graded_store_def graded_labels)
  from issues_by_seriousness_buckets [of reported_store] reachable_reported_store
  have "issues_by_seriousness (reports_db reported_store) =
          Inr [\<lparr>is_seriousness = ''Low'', is_count = 0\<rparr>,
               \<lparr>is_seriousness = ''Moderate'',
                is_count = int (length (reports_db reported_store))\<rparr>,
               \<lparr>is_seriousness = ''High'', is_count = 0\<rparr>,
               \<lparr>is_seriousness = ''Critical'', is_count = 0\<rparr>]"
    by blast
  then have submitted: "issues_by_seriousness (reports_db reported_store) =
       Inr [\<lparr>is_seriousness = ''Low'', is_count = 0\<rparr>,
            \<lparr>is_seriousness = ''Moderate'', is_count = 1\<rparr>,
            \<lparr>is_seriousness = ''High'', is_count = 0\<rparr>,
            \<lparr>is_seriousness = ''Critical'', is_count = 0\<rparr>]"
    by (simp add: reported_store_def)
  have "reports_db empty_store = []"
    by (simp add: empty_store_def)
  with issues_by_seriousness_buckets [of empty_store]
  have "get_authority_dashboard empty_store =
       Inr \<lparr>globalStats = \<lparr>gs_totalReports = 0, gs_resolvedReports = 0,
                            gs_unresolvedReports = 0, gs_highPriorityReports = 0\<rparr>,
            issuesByCategory = [],
            issuesBySeriousness =
              [\<lparr>is_seriousness = ''Low'', is_count = 0\<rparr>,
               \<lparr>is_seriousness = ''Moderate'', is_count = 0\<rparr>,
               \<lparr>is_seriousness = ''High'', is_count = 0\<rparr>,
               \<lparr>is_seriousness = ''Critical'', is_count = 0\<rparr>],
            issueList = []\<rparr>"
    by blast
  with graded submitted reachable_reported_store show ?thesis
    by simp
qed

section \<open>The category tally\<close>

text \<open>
  The tally keeps its keys in the order in which they were first seen, each with the
  number of reports that gave it, and the counts add up to the number of reports. When
  no report has the category \<^verbatim>\<open>None\<close> the pairs are emitted from it; a report
  without the key \<^verbatim>\<open>category\<close> is counted under ``Other''.
\<close>

lemma tally_get_None: "tally_get kvs k = None \<longleftrightarrow> k \<notin> fst ` set kvs"
  by (induction kvs) (force simp: image_iff split: if_splits)+

lemma tally_get_Some: "tally_get kvs k = Some v \<Longrightarrow> k \<in> fst ` set kvs"
  using tally_get_None [of kvs k] by auto

lemma tally_get_member:
  "distinct (map fst kvs) \<Longrightarrow> (k, n) \<in> set kvs \<Longrightarrow> tally_get kvs k = Some n"
  by (induction kvs) (auto simp: rev_image_eqI)

lemma tally_set_keys:
  "map fst (tally_set kvs k v) = (if k \<in> fst ` set kvs then map fst kvs else map fst kvs @ [k])"
  by (induction kvs) (force simp: image_iff)+

lemma tally_set_key_set: "fst ` set (tally_set kvs k v) = insert k (fst ` set kvs)"
proof -
  have "fst ` set (tally_set kvs k v) = set (map fst (tally_set kvs k v))"
    by simp
  also have "\<dots> = insert k (fst ` set kvs)"
    unfolding tally_set_keys by auto
  finally show ?thesis .
qed

lemma tally_get_set:
  "tally_get (tally_set kvs k v) k' = (if k' = k then Some v else tally_get kvs k')"
  by (induction kvs) auto

lemma tally_set_sum:
  "sum_list (map snd (tally_set kvs k v)) =
     sum_list (map snd kvs) - (case tally_get kvs k of None \<Rightarrow> 0 | Some c \<Rightarrow> c) + v"
  by (induction kvs) auto

lemma first_seen_snoc:
  "rev (remdups (rev (xs @ [x]))) =
     (if x \<in> set xs then rev (remdups (rev xs)) else rev (remdups (rev xs)) @ [x])"
  by simp

lemma first_seen_again:
  "c \<in> set ks \<Longrightarrow> rev (remdups (rev (ks @ c # cs))) = rev (remdups (rev (ks @ cs)))"
proof (induction cs rule: rev_induct)
  case Nil
  then show ?case by simp
next
  case (snoc z cs)
  have "rev (remdups (rev (ks @ c # cs @ [z]))) = rev (remdups (rev ((ks @ c # cs) @ [z])))"
    by simp
  also have "\<dots> = (if z \<in> set (ks @ c # cs) then rev (remdups (rev (ks @ c # cs)))
                    else rev (remdups (rev (ks @ c # cs))) @ [z])"
    by (rule first_seen_snoc)
  also have "\<dots> = (if z \<in> set (ks @ cs) then rev (remdups (rev (ks @ cs)))
                    else rev (remdups (rev (ks @ cs))) @ [z])"
    using snoc by auto
  also have "\<dots> = rev (remdups (rev ((ks @ cs) @ [z])))"
    by (rule first_seen_snoc [symmetric])
  finally show ?case by simp
qed

lemma category_counts_keys:
  "distinct (map fst acc) \<Longrightarrow>
     map fst (category_counts acc db) =
       rev (remdups (rev (map fst acc
              @ map (\<lambda>report. dict_get report ''category'' (PStr ''Other'')) db)))"
proof (induction db arbitrary: acc)
  case Nil
  then show ?case by (simp add: distinct_remdups_id)
next
  case (Cons d db)
  let ?c = "dict_get d ''category'' (PStr ''Other'')"
  let ?acc = "tally_set acc ?c ((case tally_get acc ?c of None \<Rightarrow> 0 | Some c \<Rightarrow> c) + 1)"
  have dist: "distinct (map fst ?acc)"
    using Cons.prems by (simp add: tally_set_keys)
  have "map fst (category_counts acc (d # db)) = map fst (category_counts ?acc db)"
    by (simp add: Let_def)
  also have "\<dots> = rev (remdups (rev (map fst ?acc
              @ map (\<lambda>report. dict_get report ''category'' (PStr ''Other'')) db)))"
    by (rule Cons.IH [OF dist])
  also have "\<dots> = rev (remdups (rev (map fst acc
              @ map (\<lambda>report. dict_get report ''category'' (PStr ''Other'')) (d # db))))"
  proof (cases "?c \<in> fst ` set acc")
    case True
    then have "?c \<in> set (map fst acc)" by simp
    from first_seen_again [OF this] True show ?thesis
      by (simp add: tally_set_keys)
  next
    case False
    then show ?thesis by (simp add: tally_set_keys)
  qed
  finally show ?case .
qed

lemma category_counts_get:
  "tally_get (category_counts acc db) k =
     (if k \<in> fst ` set acc
         \<or> k \<in> set (map (\<lambda>report. dict_get report ''category'' (PStr ''Other'')) db)
      then Some ((case tally_get acc k of None \<Rightarrow> 0 | Some c \<Rightarrow> c)
                 + int (count_list
                         (map (\<lambda>report. dict_get report ''category'' (PStr ''Other'')) db) k))
      else None)"
proof (induction db arbitrary: acc)
  case Nil
  show ?case
    by (cases "tally_get acc k") (auto simp: tally_get_None dest: tally_get_Some)
next
  case (Cons d db)
  show ?case
    by (cases "dict_get d ''category'' (PStr ''Other'') = k")
       (simp_all add: Cons.IH Let_def tally_get_set tally_set_key_set)
qed

lemma category_counts_sum:
  "sum_list (map snd (category_counts acc db)) = sum_list (map snd acc) + int (length db)"
  by (induction db arbitrary: acc)
     (auto simp: Let_def tally_set_sum split: option.splits)

lemma pairs_of_keys:
  "(\<And>k n. (k, n) \<in> set kvs \<Longrightarrow> n = f k) \<Longrightarrow> kvs = map (\<lambda>k. (k, f k)) (map fst kvs)"
  by (induction kvs) auto

lemma category_counts_pairs:
  "category_counts [] db =
     map (\<lambda>k. (k, int (count_list
                         (map (\<lambda>report. dict_get report ''category'' (PStr ''Other'')) db) k)))
       (rev (remdups (rev (map (\<lambda>report. dict_get report ''category'' (PStr ''Other'')) db))))"
proof -
  let ?cats = "map (\<lambda>report. dict_get report ''category'' (PStr ''Other'')) db"
  have keys: "map fst (category_counts [] db) = rev (remdups (rev ?cats))"
    using category_counts_keys [of "[]" db] by simp
  then have dist: "distinct (map fst (category_counts [] db))"
    by simp
  have "n = int (count_list ?cats k)" if "(k, n) \<in> set (category_counts [] db)" for k n
  proof -
    from tally_get_member [OF dist that]
    have "tally_get (category_counts [] db) k = Some n" .
    then show ?thesis
      by (simp add: category_counts_get split: if_splits)
  qed
  from pairs_of_keys [of "category_counts [] db" "\<lambda>k. int (count_list ?cats k)", OF this]
  show ?thesis
    by (simp add: keys)
qed

lemma new_IssueByCategory_error: "new_IssueByCategory k n = Inl e \<Longrightarrow> e = ValidationError"
  by (auto simp: new_IssueByCategory_def bind_def split: sum.splits dest: str_field_error)

lemma issues_by_category_text:
  assumes "\<And>d. d \<in> set db \<Longrightarrow> d ''category'' \<noteq> Some PNone"
  shows "issues_by_category db =
     Inr (map (\<lambda>k. \<lparr>ic_category = py_str k,
                     ic_count = int (count_list
                         (map (\<lambda>report. dict_get report ''category'' (PStr ''Other'')) db) k)\<rparr>)
       (rev (remdups (rev (map (\<lambda>report. dict_get report ''category'' (PStr ''Other'')) db)))))"
proof -
  let ?cats = "map (\<lambda>report. dict_get report ''category'' (PStr ''Other'')) db"
  let ?count = "\<lambda>k. int (count_list ?cats k)"
  have strs: "\<exists>x. k = PStr x" if "k \<in> set ?cats" for k
  proof -
    from that obtain d where d: "d \<in> set db" "k = dict_get d ''category'' (PStr ''Other'')"
      by auto
    from assms [OF d(1)] d(2) show ?thesis
      by (cases "d ''category''"; cases k) (auto simp: dict_get_def)
  qed
  have "comprehension (\<lambda>(cat, n). new_IssueByCategory cat n)
          (map (\<lambda>k. (k, ?count k)) (rev (remdups (rev ?cats))))
        = Inr (map (\<lambda>(k, n). \<lparr>ic_category = py_str k, ic_count = n\<rparr>)
                 (map (\<lambda>k. (k, ?count k)) (rev (remdups (rev ?cats)))))"
  proof (rule comprehension_all)
    fix p assume "p \<in> set (map (\<lambda>k. (k, ?count k)) (rev (remdups (rev ?cats))))"
    then obtain k where p: "p = (k, ?count k)" and "k \<in> set ?cats"
      by auto
    from strs [OF this(2)] obtain x where "k = PStr x" ..
    with p show "(case p of (cat, n) \<Rightarrow> new_IssueByCategory cat n)
                 = Inr (case p of (k, n) \<Rightarrow> \<lparr>ic_category = py_str k, ic_count = n\<rparr>)"
      by (simp add: new_IssueByCategory_def bind_def str_field_PStr py_str_def)
  qed
  then show ?thesis
    unfolding issues_by_category_def category_counts_pairs
    by (simp add: comp_def)
qed

lemma issues_by_category_none:
  assumes "d \<in> set db" "d ''category'' = Some PNone"
  shows "issues_by_category db = Inl ValidationError"
  unfolding issues_by_category_def
proof (rule comprehension_fail)
  from assms have "PNone \<in> set (map (\<lambda>report. dict_get report ''category'' (PStr ''Other'')) db)"
    by (force simp: dict_get_def)
  then have "PNone \<in> set (map fst (category_counts [] db))"
    using category_counts_keys [of "[]" db] by simp
  then obtain n where "(PNone, n) \<in> set (category_counts [] db)"
    by auto
  moreover have "new_IssueByCategory PNone n = Inl ValidationError"
    by (simp add: new_IssueByCategory_def bind_def str_field_PNone)
  ultimately show "\<exists>x\<in>set (category_counts [] db).
       (case x of (cat, n) \<Rightarrow> new_IssueByCategory cat n) = Inl ValidationError"
    by force
next
  fix x e'
  assume "(case x of (cat, n) \<Rightarrow> new_IssueByCategory cat n) = Inl e'"
  then show "e' = ValidationError"
    by (cases x) (auto dest: new_IssueByCategory_error)
qed

text \<open>
  Claim C8. In the reachable store that holds an authority report and a community alert
  without a category, the tally counts the alert under the key \<^verbatim>\<open>None\<close>, not under
  ``Other'': the key \<^verbatim>\<open>category\<close> is present with the value \<^verbatim>\<open>None\<close>, so the
  default of \<^verbatim>\<open>report.get("category", "Other")\<close> is not used. Constructing the
  \<^verbatim>\<open>IssueByCategory\<close> of that key then fails, and no pairs are emitted. With the
  authority report alone the pairs are the ones the claim describes.
\<close>

theorem issues_by_category_fails_on_alert:
  "reachable mixed_store
   \<and> category_counts [] (reports_db mixed_store) = [(PStr ''Roads'', 1), (PNone, 1)]
   \<and> issues_by_category (reports_db mixed_store) = Inl ValidationError
   \<and> issues_by_category (reports_db reported_store) =
       Inr [\<lparr>ic_category = ''Roads'', ic_count = 1\<rparr>]"
proof -
  have cc: "category_counts [] (reports_db mixed_store) = [(PStr ''Roads'', 1), (PNone, 1)]"
    by (simp add: mixed_store_def dict_get_def report_dict_keys pothole_def flood_def
          optional_def Let_def)
  have bad: "issues_by_category (reports_db mixed_store) = Inl ValidationError"
    by (simp add: issues_by_category_def cc new_IssueByCategory_def bind_def str_field_def)
  have ok: "issues_by_category (reports_db reported_store) =
       Inr [\<lparr>ic_category = ''Roads'', ic_count = 1\<rparr>]"
    by (simp add: issues_by_category_def reported_store_def dict_get_def report_dict_keys
          pothole_def optional_def Let_def new_IssueByCategory_def bind_def str_field_def)
  from cc bad ok reachable_mixed_store show ?thesis by simp
qed

section \<open>The authority dashboard on submitted reports\<close>

lemma issue_list_first:
  "issue_list (report_dict r # db) = Inl (KeyError (PStr ''date''))"
  by (simp add: issue_list_def bind_def subscript_def report_dict_keys)

lemma get_authority_dashboard_reachable:
  assumes "reachable s" "reports_db s \<noteq> []"
  shows "get_authority_dashboard s =
           Inl (if list_ex (\<lambda>report. report ''category'' = Some PNone) (reports_db s)
                then ValidationError else KeyError (PStr ''date''))"
proof (cases "list_ex (\<lambda>report. report ''category'' = Some PNone) (reports_db s)")
  case True
  then obtain d where "d \<in> set (reports_db s)" "d ''category'' = Some PNone"
    by (auto simp: list_ex_iff)
  then have "issues_by_category (reports_db s) = Inl ValidationError"
    by (rule issues_by_category_none)
  with True show ?thesis
    by (simp add: get_authority_dashboard_def bind_def)
next
  case False
  then have texts: "d ''category'' \<noteq> Some PNone" if "d \<in> set (reports_db s)" for d
    using that by (auto simp: list_ex_iff)
  have "\<exists>pairs. issues_by_category (reports_db s) = Inr pairs"
    by (rule exI, rule issues_by_category_text) (rule texts)
  then obtain pairs where pairs: "issues_by_category (reports_db s) = Inr pairs" ..
  from buckets_of_reachable [OF assms(1)]
  obtain buckets where buckets: "issues_by_seriousness (reports_db s) = Inr buckets"
    by blast
  from assms(2) obtain d db where db: "reports_db s = d # db"
    by (cases "reports_db s") auto
  with reachable_reports [OF assms(1)] obtain r where "d = report_dict r"
    by auto
  with db have "issue_list (reports_db s) = Inl (KeyError (PStr ''date''))"
    by (simp add: issue_list_first)
  with pairs buckets False show ?thesis
    by (simp add: get_authority_dashboard_def bind_def)
qed

text \<open>
  Claim C1. In every reachable store, where each report is the dictionary of a
  submission and so has no \<^verbatim>\<open>date\<close> key, that holds at least one report, building
  \<^verbatim>\<open>issue_list\<close> raises \<^verbatim>\<open>KeyError('date')\<close> at the first report. The authority
  dashboard as a whole fails: with this error when every report has a category, and
  already with the validation error of \<^verbatim>\<open>IssueByCategory\<close> when some report has the
  category \<^verbatim>\<open>None\<close>.
\<close>

theorem issue_list_raises_on_date:
  "reachable s \<Longrightarrow> reports_db s \<noteq> [] \<Longrightarrow>
     issue_list (reports_db s) = Inl (KeyError (PStr ''date''))
     \<and> get_authority_dashboard s =
         Inl (if list_ex (\<lambda>report. report ''category'' = Some PNone) (reports_db s)
              then ValidationError else KeyError (PStr ''date''))"
proof -
  assume r: "reachable s" and ne: "reports_db s \<noteq> []"
  from ne obtain d db where db: "reports_db s = d # db"
    by (cases "reports_db s") auto
  with reachable_reports [OF r] obtain r0 where "d = report_dict r0"
    by auto
  with db have "issue_list (reports_db s) = Inl (KeyError (PStr ''date''))"
    by (simp add: issue_list_first)
  with get_authority_dashboard_reachable [OF r ne] show ?thesis
    by simp
qed

theorem issue_list_raises_on_date_witness:
  "reachable reported_store \<and> reports_db reported_store \<noteq> []
   \<and> issue_list (reports_db reported_store) = Inl (KeyError (PStr ''date''))
   \<and> get_authority_dashboard reported_store = Inl (KeyError (PStr ''date''))"
proof -
  have ne: "reports_db reported_store \<noteq> []"
    by (simp add: reported_store_def)
  have texts: "\<not> list_ex (\<lambda>report. report ''category'' = Some PNone)
                   (reports_db reported_store)"
    by (simp add: reported_store_def report_dict_keys pothole_def optional_def)
  from issue_list_raises_on_date [OF reachable_reported_store ne] texts
       reachable_reported_store ne
  show ?thesis by simp
qed

end
